theory Spec2Isabelle
  imports Main "HOL-Library.AList"
begin

text \<open>
  The function \<^verbatim>\<open>convert_aistudio_to_openwebui\<close> of
  \<^verbatim>\<open>convert_aistudio_to_openwebui.py\<close> turns a chat exported by AI Studio into the
  chat record that Open WebUI imports. It is embedded here as a function on the parsed
  JSON value. Every exception that the interpreter raises when an operation meets a
  value of the wrong type is a result of the embedding, the identifiers of \<^verbatim>\<open>uuid4\<close>
  and the clock are parameters, and the message dictionaries, which the function shares
  between a dictionary and a list and changes in place, live in a store.
\<close>

section \<open>Python values and the operations the converter applies to them\<close>

text \<open>
  The converter works on the value returned by \<^verbatim>\<open>json.load\<close>: dictionaries with
  string keys, lists, strings, numbers, booleans and \<^verbatim>\<open>None\<close>. A dictionary is an
  association list in insertion order whose keys \<^verbatim>\<open>json.load\<close> has made distinct.
  Numbers are integers here: the converter only tests a number for truth and copies it,
  and every float behaves in those two places like some integer. Strings are lists of
  characters; one \<^typ>\<open>char\<close> stands for one character of a Python string.
\<close>

datatype json =
    JNull
  | JBool bool
  | JNum int
  | JStr string
  | JArr "json list"
  | JObj "(string \<times> json) list"

text \<open>The exceptions the interpreter raises when an operation meets a value of the wrong type.\<close>

datatype error = AttributeError | TypeError | KeyError

text \<open>Sequencing of statements that may raise: the first exception ends the call.\<close>

definition bind :: "error + 'a \<Rightarrow> ('a \<Rightarrow> error + 'b) \<Rightarrow> error + 'b" where
  "bind m f = (case m of Inl e \<Rightarrow> Inl e | Inr x \<Rightarrow> f x)"

text \<open>\<^verbatim>\<open>d.get(k, default)\<close>: only a dictionary has the method.\<close>

fun py_get :: "json \<Rightarrow> string \<Rightarrow> json \<Rightarrow> error + json" where
  "py_get (JObj kvs) k dflt = Inr (case map_of kvs k of None \<Rightarrow> dflt | Some v \<Rightarrow> v)"
| "py_get _ k dflt = Inl AttributeError"

text \<open>Truth value testing, as in \<^verbatim>\<open>if x:\<close> and \<^verbatim>\<open>if not x:\<close>.\<close>

fun py_truthy :: "json \<Rightarrow> bool" where
  "py_truthy JNull = False"
| "py_truthy (JBool b) = b"
| "py_truthy (JNum n) = (n \<noteq> 0)"
| "py_truthy (JStr s) = (s \<noteq> [])"
| "py_truthy (JArr xs) = (xs \<noteq> [])"
| "py_truthy (JObj kvs) = (kvs \<noteq> [])"

text \<open>
  Iteration (\<^verbatim>\<open>for x in v\<close>): a list yields its items, a string its characters as
  one-character strings, a dictionary its keys; nothing else is iterable.
\<close>

fun py_iter :: "json \<Rightarrow> error + json list" where
  "py_iter (JArr xs) = Inr xs"
| "py_iter (JStr s) = Inr (map (\<lambda>c. JStr [c]) s)"
| "py_iter (JObj kvs) = Inr (map (\<lambda>kv. JStr (fst kv)) kvs)"
| "py_iter _ = Inl TypeError"

text \<open>\<^verbatim>\<open>sep.join(items)\<close>: every item must be a string.\<close>

fun join_strings :: "string \<Rightarrow> string list \<Rightarrow> string" where
  "join_strings sep [] = []"
| "join_strings sep [s] = s"
| "join_strings sep (s # t # ss) = s @ sep @ join_strings sep (t # ss)"

fun strings_of :: "json list \<Rightarrow> error + string list" where
  "strings_of [] = Inr []"
| "strings_of (JStr s # vs) = bind (strings_of vs) (\<lambda>ss. Inr (s # ss))"
| "strings_of (_ # vs) = Inl TypeError"

definition py_join :: "string \<Rightarrow> json list \<Rightarrow> error + string" where
  "py_join sep items = bind (strings_of items) (\<lambda>ss. Inr (join_strings sep ss))"

text \<open>\<^verbatim>\<open>s + v\<close> with \<^verbatim>\<open>s\<close> a string: \<^verbatim>\<open>v\<close> must be a string too.\<close>

fun py_str_add :: "string \<Rightarrow> json \<Rightarrow> error + json" where
  "py_str_add s (JStr t) = Inr (JStr (s @ t))"
| "py_str_add s _ = Inl TypeError"

text \<open>\<^verbatim>\<open>len(v)\<close>.\<close>

fun py_len :: "json \<Rightarrow> error + nat" where
  "py_len (JStr s) = Inr (length s)"
| "py_len (JArr xs) = Inr (length xs)"
| "py_len (JObj kvs) = Inr (length kvs)"
| "py_len _ = Inl TypeError"

text \<open>
  \<^verbatim>\<open>v[:50] + "..."\<close>: a string is cut and extended; a list is cut, and adding a
  string to it raises; a dictionary cannot be sliced (a \<^verbatim>\<open>KeyError\<close> since
  Python 3.12, a \<^verbatim>\<open>TypeError\<close> before); nothing else can be subscripted.
\<close>

fun py_head50_dots :: "json \<Rightarrow> error + json" where
  "py_head50_dots (JStr s) = Inr (JStr (take 50 s @ ''...''))"
| "py_head50_dots (JObj kvs) = Inl KeyError"
| "py_head50_dots _ = Inl TypeError"

section \<open>Thought chunks (lines 45 to 57)\<close>

definition blank_line :: string where
  "blank_line = ''\<newline>\<newline>''"

text \<open>
  The list comprehension of line 53: for each part in order, first the test
  \<^verbatim>\<open>part.get("thought", False)\<close>, then, when it holds, \<^verbatim>\<open>part.get("text", "")\<close>.
\<close>

fun thought_texts :: "json list \<Rightarrow> error + json list" where
  "thought_texts [] = Inr []"
| "thought_texts (part # parts) =
     bind (py_get part ''thought'' (JBool False)) (\<lambda>flag.
       if py_truthy flag then
         bind (py_get part ''text'' (JStr '''')) (\<lambda>t.
         bind (thought_texts parts) (\<lambda>ts. Inr (t # ts)))
       else thought_texts parts)"

text \<open>The value appended to \<^verbatim>\<open>pending_thoughts\<close> for a thought chunk (lines 47 to 55).\<close>

definition thought_content :: "json \<Rightarrow> error + json" where
  "thought_content chunk =
     bind (py_get chunk ''text'' (JStr '''')) (\<lambda>flat.
     bind (py_get chunk ''parts'' (JArr [])) (\<lambda>thought_parts.
       if py_truthy thought_parts then
         bind (py_iter thought_parts) (\<lambda>parts.
         bind (thought_texts parts) (\<lambda>texts.
           if texts \<noteq> [] then
             bind (py_join blank_line texts) (\<lambda>joined. Inr (JStr joined))
           else Inr flat))
       else Inr flat))"

section \<open>The target record\<close>

text \<open>
  A message dictionary (lines 81 to 95). The four keys of an assistant message are
  absent from a user message, so they are optional here. \<^verbatim>\<open>parentId\<close> is
  \<^verbatim>\<open>None\<close> or a string.
\<close>

record message =
  m_id :: string
  m_parentId :: "string option"
  m_childrenIds :: "string list"
  m_role :: string
  m_content :: json
  m_timestamp :: int
  m_model :: "json option"
  m_modelName :: "string option"
  m_modelIdx :: "int option"
  m_done :: "bool option"

text \<open>
  The message dictionaries are objects shared between the dictionary \<^verbatim>\<open>messages\<close>
  and the list \<^verbatim>\<open>messages_list\<close>, and line 105 changes one of them in place. The
  objects live in a store, a list indexed by reference; the dictionary and the list hold
  references.
\<close>

type_synonym ref = nat

record chat =
  c_id :: string
  c_title :: json
  c_models :: "json list"
  c_params :: json
  c_history_messages :: "(string \<times> ref) list"
  c_history_currentId :: "string option"
  c_messages :: "ref list"
  c_tags :: json
  c_timestamp :: int
  c_files :: json

record openwebui_chat =
  r_id :: string
  r_user_id :: string
  r_title :: json
  r_chat :: chat
  r_updated_at :: int
  r_created_at :: int
  r_archived :: bool
  r_pinned :: bool
  r_meta_tags :: "string list"

text \<open>What a call leaves behind: the store of message objects and the returned list.\<close>

record outcome =
  store :: "message list"
  returned :: "openwebui_chat list"

section \<open>The environment\<close>

text \<open>
  \<^verbatim>\<open>uuid.uuid4()\<close> and \<^verbatim>\<open>datetime.now()\<close> are read from the environment:
  \<open>uuid4 n\<close> is the string of the \<open>n\<close>-th call (counted from 0) and \<open>now\<close> the
  integer timestamp of line 36.
\<close>

record env =
  uuid4 :: "nat \<Rightarrow> string"
  now :: int

section \<open>Turn chunks (lines 60 to 108)\<close>

definition thought_section :: "string \<Rightarrow> string" where
  \<open>thought_section combined_thoughts =
     ''<details type="reasoning" done="true" duration="5">\<newline><summary>Thought for 5 seconds</summary>\<newline>''
     @ combined_thoughts @ ''\<newline></details>\<newline>\<newline>''\<close>

text \<open>\<^verbatim>\<open>aistudio_data.get("runSettings", {}).get("model", "unknown")\<close> (lines 92 and 127).\<close>

definition run_model :: "json \<Rightarrow> error + json" where
  "run_model aistudio_data =
     bind (py_get aistudio_data ''runSettings'' (JObj [])) (\<lambda>rs.
       py_get rs ''model'' (JStr ''unknown''))"

text \<open>The local variables of the loop, and the number of calls of \<^verbatim>\<open>uuid4\<close> so far.\<close>

record loop_state =
  objects :: "message list"
  messages :: "(string \<times> ref) list"
  messages_list :: "ref list"
  parent_id :: "string option"
  pending_thoughts :: "json list"
  message_index :: int
  uuid_calls :: nat

text \<open>Lines 71 to 78: the content of the message and the thoughts still pending.\<close>

definition prepend_thoughts :: "string \<Rightarrow> json list \<Rightarrow> json \<Rightarrow> error + json \<times> json list" where
  "prepend_thoughts role pending content =
     (if role = ''assistant'' \<and> pending \<noteq> [] then
        bind (py_join blank_line pending) (\<lambda>combined_thoughts.
        bind (py_str_add (thought_section combined_thoughts) content) (\<lambda>content'.
          Inr (content', [])))
      else Inr (content, pending))"

text \<open>Lines 81 to 95.\<close>

definition new_message ::
  "json \<Rightarrow> string \<Rightarrow> string option \<Rightarrow> string \<Rightarrow> json \<Rightarrow> int \<Rightarrow> error + message" where
  "new_message aistudio_data message_id parent role content ts =
     (let message = \<lparr> m_id = message_id, m_parentId = parent, m_childrenIds = [],
                      m_role = role, m_content = content, m_timestamp = ts,
                      m_model = None, m_modelName = None, m_modelIdx = None, m_done = None \<rparr>
      in if role = ''assistant'' then
           bind (run_model aistudio_data) (\<lambda>model.
             Inr (message \<lparr> m_model := Some model,
                            m_modelName := Some ''Converted from AIStudio'',
                            m_modelIdx := Some 0,
                            m_done := Some True \<rparr>))
         else Inr message)"

text \<open>
  Lines 104 and 105: \<^verbatim>\<open>parent_id\<close> is tested for truth (neither \<^verbatim>\<open>None\<close> nor
  the empty string) and looked up; the object found gets the new identifier appended to
  its \<^verbatim>\<open>childrenIds\<close>. A reference of the dictionary always points into the store.
\<close>

definition append_child :: "message list \<Rightarrow> ref \<Rightarrow> string \<Rightarrow> message list" where
  "append_child objs r message_id =
     objs[r := (objs ! r) \<lparr> m_childrenIds := m_childrenIds (objs ! r) @ [message_id] \<rparr>]"

definition link_parent ::
  "message list \<Rightarrow> (string \<times> ref) list \<Rightarrow> string option \<Rightarrow> string \<Rightarrow> message list" where
  "link_parent objs msgs parent message_id =
     (case parent of
        None \<Rightarrow> objs
      | Some p \<Rightarrow>
          if p \<noteq> [] then
            (case map_of msgs p of
               None \<Rightarrow> objs
             | Some r \<Rightarrow> append_child objs r message_id)
          else objs)"

text \<open>Lines 62 to 108, for a chunk that is not a thought chunk.\<close>

definition turn_chunk :: "env \<Rightarrow> json \<Rightarrow> loop_state \<Rightarrow> json \<Rightarrow> error + loop_state" where
  "turn_chunk e aistudio_data st chunk =
     (let message_id = uuid4 e (uuid_calls st) in
      bind (py_get chunk ''role'' JNull) (\<lambda>r.
      let role = (if r = JStr ''user'' then ''user'' else ''assistant'') in
      bind (py_get chunk ''text'' (JStr '''')) (\<lambda>text.
      bind (prepend_thoughts role (pending_thoughts st) text) (\<lambda>(content, pending).
      bind (new_message aistudio_data message_id (parent_id st) role content
              (now e + message_index st)) (\<lambda>message.
      let r = length (objects st);
          objs = objects st @ [message];
          msgs = AList.update message_id r (messages st)
      in Inr \<lparr> objects = link_parent objs msgs (parent_id st) message_id,
               messages = msgs,
               messages_list = messages_list st @ [r],
               parent_id = Some message_id,
               pending_thoughts = pending,
               message_index = message_index st + 1,
               uuid_calls = Suc (uuid_calls st) \<rparr>)))))"

text \<open>The body of the loop (lines 45 to 108).\<close>

definition process_chunk :: "env \<Rightarrow> json \<Rightarrow> loop_state \<Rightarrow> json \<Rightarrow> error + loop_state" where
  "process_chunk e aistudio_data st chunk =
     bind (py_get chunk ''isThought'' (JBool False)) (\<lambda>flag.
       if py_truthy flag then
         bind (thought_content chunk) (\<lambda>t.
           Inr (st \<lparr> pending_thoughts := pending_thoughts st @ [t] \<rparr>))
       else turn_chunk e aistudio_data st chunk)"

text \<open>The loop of line 43.\<close>

fun process_chunks :: "env \<Rightarrow> json \<Rightarrow> loop_state \<Rightarrow> json list \<Rightarrow> error + loop_state" where
  "process_chunks e aistudio_data st [] = Inr st"
| "process_chunks e aistudio_data st (chunk # chunks) =
     bind (process_chunk e aistudio_data st chunk) (\<lambda>st'.
       process_chunks e aistudio_data st' chunks)"

section \<open>The title (lines 110 to 117)\<close>

text \<open>
  \<^verbatim>\<open>os.path.basename\<close> and \<^verbatim>\<open>os.path.splitext\<close> of the standard library, in
  their POSIX form: the base name is what follows the last slash; the extension starts
  at the last dot of the path, provided that dot comes after the last slash and after a
  character of the base name that is not a dot.
\<close>

definition basename :: "string \<Rightarrow> string" where
  "basename p = rev (takeWhile (\<lambda>c. c \<noteq> CHR ''/'') (rev p))"

definition splitext :: "string \<Rightarrow> string \<times> string" where
  "splitext p =
     (let ext = rev (takeWhile (\<lambda>c. c \<noteq> CHR ''.'') (rev p));
          root = take (length p - length ext - 1) p
      in if CHR ''.'' \<in> set p \<and> CHR ''/'' \<notin> set ext
            \<and> (\<exists>c \<in> set (basename root). c \<noteq> CHR ''.'')
         then (root, CHR ''.'' # ext)
         else (p, []))"

definition first_message_title :: "message list \<Rightarrow> ref list \<Rightarrow> error + json" where
  "first_message_title objs lst =
     (case lst of
        [] \<Rightarrow> Inr (JStr ''AIStudio Conversation'')
      | r # _ \<Rightarrow>
          if m_role (objs ! r) = ''user'' then
            bind (py_len (m_content (objs ! r))) (\<lambda>n.
              if n > 50 then py_head50_dots (m_content (objs ! r))
              else Inr (m_content (objs ! r)))
          else Inr (JStr ''AIStudio Conversation''))"

definition chat_title :: "string option \<Rightarrow> message list \<Rightarrow> ref list \<Rightarrow> error + json" where
  "chat_title filename objs lst =
     (case filename of
        None \<Rightarrow> first_message_title objs lst
      | Some f \<Rightarrow>
          if f \<noteq> [] then Inr (JStr (fst (splitext (basename f))))
          else first_message_title objs lst)"

section \<open>The conversion (lines 7 to 147)\<close>

definition initial_state :: loop_state where
  "initial_state = \<lparr> objects = [], messages = [], messages_list = [], parent_id = None,
                     pending_thoughts = [], message_index = 0, uuid_calls = 2 \<rparr>"

definition convert_aistudio_to_openwebui :: "env \<Rightarrow> json \<Rightarrow> string option \<Rightarrow> error + outcome" where
  "convert_aistudio_to_openwebui e aistudio_data filename =
     bind (py_get aistudio_data ''chunkedPrompt'' (JObj [])) (\<lambda>cp.
     bind (py_get cp ''chunks'' (JArr [])) (\<lambda>chunks.
       if \<not> py_truthy chunks then Inr \<lparr> store = [], returned = [] \<rparr>
       else
         let chat_id = uuid4 e 0;
             user_id = uuid4 e 1;
             base_timestamp = now e
         in
         bind (py_iter chunks) (\<lambda>cs.
         bind (process_chunks e aistudio_data initial_state cs) (\<lambda>st.
         bind (chat_title filename (objects st) (messages_list st)) (\<lambda>title.
         bind (run_model aistudio_data) (\<lambda>model.
           Inr \<lparr> store = objects st,
                 returned =
                   [\<lparr> r_id = chat_id,
                      r_user_id = user_id,
                      r_title = title,
                      r_chat = \<lparr> c_id = '''',
                                 c_title = title,
                                 c_models = [model],
                                 c_params = JObj [],
                                 c_history_messages = messages st,
                                 c_history_currentId = parent_id st,
                                 c_messages = messages_list st,
                                 c_tags = JArr [],
                                 c_timestamp = base_timestamp,
                                 c_files = JArr [] \<rparr>,
                      r_updated_at = base_timestamp,
                      r_created_at = base_timestamp,
                      r_archived = False,
                      r_pinned = False,
                      r_meta_tags = [''aistudio'', ''converted''] \<rparr>] \<rparr>))))))"

section \<open>Source documents of the data model\<close>

text \<open>
  The source document the converter is written for: a dictionary in which every field
  may be absent and a field that is present has the type the data model gives it
  (\<^verbatim>\<open>chunkedPrompt\<close> and \<^verbatim>\<open>runSettings\<close> dictionaries, \<^verbatim>\<open>chunks\<close> and
  \<^verbatim>\<open>parts\<close> lists of dictionaries, \<^verbatim>\<open>text\<close> a string). The fields
  \<^verbatim>\<open>role\<close>, \<^verbatim>\<open>isThought\<close>, \<^verbatim>\<open>thought\<close> and \<^verbatim>\<open>model\<close> may hold any value.
\<close>

definition is_str :: "json \<Rightarrow> bool" where
  "is_str v = (case v of JStr s \<Rightarrow> True | _ \<Rightarrow> False)"

definition is_obj :: "json \<Rightarrow> bool" where
  "is_obj v = (case v of JObj kvs \<Rightarrow> True | _ \<Rightarrow> False)"

definition absent_or :: "(json \<Rightarrow> bool) \<Rightarrow> (string \<times> json) list \<Rightarrow> string \<Rightarrow> bool" where
  "absent_or P kvs k = (case map_of kvs k of None \<Rightarrow> True | Some v \<Rightarrow> P v)"

definition items_all :: "(json \<Rightarrow> bool) \<Rightarrow> json \<Rightarrow> bool" where
  "items_all P v = (case v of JArr xs \<Rightarrow> list_all P xs | _ \<Rightarrow> False)"

definition shaped_part :: "json \<Rightarrow> bool" where
  "shaped_part p = (case p of JObj kvs \<Rightarrow> absent_or is_str kvs ''text'' | _ \<Rightarrow> False)"

definition shaped_chunk :: "json \<Rightarrow> bool" where
  "shaped_chunk c =
     (case c of
        JObj kvs \<Rightarrow> absent_or is_str kvs ''text'' \<and> absent_or (items_all shaped_part) kvs ''parts''
      | _ \<Rightarrow> False)"

definition shaped_prompt :: "json \<Rightarrow> bool" where
  "shaped_prompt cp =
     (case cp of JObj kvs \<Rightarrow> absent_or (items_all shaped_chunk) kvs ''chunks'' | _ \<Rightarrow> False)"

definition shaped_doc :: "json \<Rightarrow> bool" where
  "shaped_doc d =
     (case d of
        JObj kvs \<Rightarrow> absent_or shaped_prompt kvs ''chunkedPrompt'' \<and> absent_or is_obj kvs ''runSettings''
      | _ \<Rightarrow> False)"

text \<open>Reading a well-shaped document: the fields with their defaults.\<close>

definition has_field :: "json \<Rightarrow> string \<Rightarrow> bool" where
  "has_field v k = (case v of JObj kvs \<Rightarrow> map_of kvs k \<noteq> None | _ \<Rightarrow> False)"

definition text_of :: "json \<Rightarrow> string" where
  "text_of v = (case py_get v ''text'' (JStr '''') of Inr (JStr s) \<Rightarrow> s | _ \<Rightarrow> '''')"

definition parts_of :: "json \<Rightarrow> json list" where
  "parts_of chunk = (case py_get chunk ''parts'' (JArr []) of Inr (JArr ps) \<Rightarrow> ps | _ \<Rightarrow> [])"

definition chunks_of :: "json \<Rightarrow> json list" where
  "chunks_of d =
     (case py_get d ''chunkedPrompt'' (JObj []) of
        Inr cp \<Rightarrow> (case py_get cp ''chunks'' (JArr []) of Inr (JArr cs) \<Rightarrow> cs | _ \<Rightarrow> [])
      | _ \<Rightarrow> [])"

definition flagged :: "json \<Rightarrow> string \<Rightarrow> bool" where
  "flagged v k = (case py_get v k (JBool False) of Inr b \<Rightarrow> py_truthy b | _ \<Rightarrow> False)"

definition flagged_texts :: "json list \<Rightarrow> string list" where
  "flagged_texts parts = map text_of (filter (\<lambda>p. flagged p ''thought'') parts)"

definition role_of :: "json \<Rightarrow> string" where
  "role_of chunk =
     (if py_get chunk ''role'' JNull = Inr (JStr ''user'') then ''user'' else ''assistant'')"

definition model_of :: "json \<Rightarrow> json" where
  "model_of d =
     (case d of
        JObj kvs \<Rightarrow>
          (case map_of kvs ''runSettings'' of
             Some (JObj rs) \<Rightarrow> (case map_of rs ''model'' of Some v \<Rightarrow> v | None \<Rightarrow> JStr ''unknown'')
           | _ \<Rightarrow> JStr ''unknown'')
      | _ \<Rightarrow> JStr ''unknown'')"

text \<open>
  The thought text as the specification words it: with a parts list, the texts of the
  flagged parts joined by a blank line, also when none is flagged; without one, the flat
  text.
\<close>

definition specified_thought_text :: "json \<Rightarrow> json" where
  "specified_thought_text chunk =
     (if has_field chunk ''parts''
      then JStr (join_strings blank_line (flagged_texts (parts_of chunk)))
      else JStr (text_of chunk))"

text \<open>
  The identifiers of the messages are those of the calls 2, 3, ... of \<^verbatim>\<open>uuid4\<close>:
  message \<open>k\<close> (counted from 0) gets \<open>uuid4 e (k + 2)\<close>.
  The generator promises identifiers that differ from each other; each is a string of
  36 characters, so never empty.
\<close>

definition fresh_ids :: "env \<Rightarrow> nat \<Rightarrow> bool" where
  "fresh_ids e n =
     (distinct (map (\<lambda>k. uuid4 e (k + 2)) [0..<n]) \<and> [] \<notin> set (map (\<lambda>k. uuid4 e (k + 2)) [0..<n]))"

section \<open>Example inputs\<close>

definition example_env :: env where
  "example_env = \<lparr> uuid4 = (\<lambda>n. ''id-'' @ replicate n (CHR ''x'')), now = 1000 \<rparr>"

definition thought_chunk_unflagged :: json where
  "thought_chunk_unflagged =
     JObj [(''isThought'', JBool True), (''text'', JStr ''flat''),
           (''parts'', JArr [JObj [(''text'', JStr ''part'')]])]"

definition thought_chunk_flagged :: json where
  "thought_chunk_flagged =
     JObj [(''isThought'', JBool True), (''text'', JStr ''flat''),
           (''parts'', JArr [JObj [(''text'', JStr ''one''), (''thought'', JBool True)],
                             JObj [(''text'', JStr ''visible'')],
                             JObj [(''text'', JStr ''two''), (''thought'', JBool True)]])]"

definition thoughts_only_doc :: json where
  "thoughts_only_doc =
     JObj [(''chunkedPrompt'', JObj [(''chunks'', JArr [JObj [(''isThought'', JBool True), (''text'', JStr ''hmm'')]])])]"

definition example_doc :: json where
  "example_doc =
     JObj [(''runSettings'', JObj [(''model'', JStr ''models/gemini'')]),
           (''chunkedPrompt'', JObj [(''chunks'', JArr [
              JObj [(''role'', JStr ''user''), (''text'', JStr ''hi'')],
              JObj [(''isThought'', JBool True), (''text'', JStr ''hmm'')],
              JObj [(''role'', JStr ''model''), (''text'', JStr ''hello'')],
              JObj [(''text'', JStr ''again'')]])])]"

definition empty_doc :: json where
  "empty_doc = JObj [(''runSettings'', JObj [(''model'', JStr ''models/gemini'')])]"

definition bare_chunk_doc :: json where
  "bare_chunk_doc = JObj [(''chunkedPrompt'', JObj [(''chunks'', JArr [JObj []])])]"

definition long_question_doc :: json where
  "long_question_doc =
     JObj [(''chunkedPrompt'', JObj [(''chunks'', JArr [
        JObj [(''role'', JStr ''user''),
              (''text'', JStr ''0123456789012345678901234567890123456789012345678901234567890'')]])])]"

definition thoughts_only_record :: openwebui_chat where
  "thoughts_only_record =
     \<lparr> r_id = ''id-'', r_user_id = ''id-x'', r_title = JStr ''AIStudio Conversation'',
       r_chat = \<lparr> c_id = '''', c_title = JStr ''AIStudio Conversation'',
                  c_models = [JStr ''unknown''], c_params = JObj [],
                  c_history_messages = [], c_history_currentId = None, c_messages = [],
                  c_tags = JArr [], c_timestamp = 1000, c_files = JArr [] \<rparr>,
       r_updated_at = 1000, r_created_at = 1000, r_archived = False, r_pinned = False,
       r_meta_tags = [''aistudio'', ''converted''] \<rparr>"

definition empty_thought_chunk :: json where
  "empty_thought_chunk = JObj [(''isThought'', JBool True)]"

definition hello_chunk :: json where
  "hello_chunk = JObj [(''role'', JStr ''model''), (''text'', JStr ''hello'')]"

definition again_chunk :: json where
  "again_chunk = JObj [(''text'', JStr ''again'')]"

definition hi_chunk :: json where
  "hi_chunk = JObj [(''role'', JStr ''user''), (''text'', JStr ''hi'')]"

definition thinking_state :: loop_state where
  "thinking_state = initial_state \<lparr> pending_thoughts := [JStr ''first'', JStr ''second''] \<rparr>"

text \<open>The expected outcome of converting \<open>example_doc\<close> without a title hint.\<close>

definition example_record :: openwebui_chat where
  "example_record =
     \<lparr> r_id = ''id-'', r_user_id = ''id-x'', r_title = JStr ''hi'',
       r_chat = \<lparr> c_id = '''', c_title = JStr ''hi'', c_models = [JStr ''models/gemini''],
                  c_params = JObj [],
                  c_history_messages = [(''id-xx'', 0), (''id-xxx'', 1), (''id-xxxx'', 2)],
                  c_history_currentId = Some ''id-xxxx'',
                  c_messages = [0, 1, 2],
                  c_tags = JArr [], c_timestamp = 1000, c_files = JArr [] \<rparr>,
       r_updated_at = 1000, r_created_at = 1000, r_archived = False, r_pinned = False,
       r_meta_tags = [''aistudio'', ''converted''] \<rparr>"

definition example_outcome :: outcome where
  "example_outcome =
     \<lparr> store =
         [\<lparr> m_id = ''id-xx'', m_parentId = None, m_childrenIds = [''id-xxx''],
             m_role = ''user'', m_content = JStr ''hi'', m_timestamp = 1000,
             m_model = None, m_modelName = None, m_modelIdx = None, m_done = None \<rparr>,
          \<lparr> m_id = ''id-xxx'', m_parentId = Some ''id-xx'', m_childrenIds = [''id-xxxx''],
             m_role = ''assistant'', m_content = JStr (thought_section ''hmm'' @ ''hello''),
             m_timestamp = 1001, m_model = Some (JStr ''models/gemini''),
             m_modelName = Some ''Converted from AIStudio'', m_modelIdx = Some 0,
             m_done = Some True \<rparr>,
          \<lparr> m_id = ''id-xxxx'', m_parentId = Some ''id-xxx'', m_childrenIds = [],
             m_role = ''assistant'', m_content = JStr ''again'',
             m_timestamp = 1002, m_model = Some (JStr ''models/gemini''),
             m_modelName = Some ''Converted from AIStudio'', m_modelIdx = Some 0,
             m_done = Some True \<rparr>],
       returned = [example_record] \<rparr>"

section \<open>Reading the outcome\<close>

text \<open>The \<^verbatim>\<open>messages\<close> list with its references followed into the store.\<close>

definition listed :: "outcome \<Rightarrow> openwebui_chat \<Rightarrow> message list" where
  "listed out r = map (\<lambda>a. store out ! a) (c_messages (r_chat r))"

section \<open>Invariants of the loop\<close>

text \<open>
  Along every run the objects of the store are the messages in order of creation:
  message \<open>k\<close> has the identifier of call \<open>k + 2\<close> and the identifier of message
  \<open>k - 1\<close> as its parent, the list holds the references \<open>0, 1, ...\<close>, and every key of
  the dictionary leads to an object that carries that key as its identifier.
\<close>

definition numbered :: "env \<Rightarrow> loop_state \<Rightarrow> bool" where
  "numbered e st =
     (let n = length (objects st) in
        messages_list st = [0..<n] \<and>
        uuid_calls st = n + 2 \<and>
        (\<forall>k<n. m_id (objects st ! k) = uuid4 e (k + 2)) \<and>
        (\<forall>k<n. m_parentId (objects st ! k) = (if k = 0 then None else Some (uuid4 e (k + 1)))) \<and>
        parent_id st = (if n = 0 then None else Some (uuid4 e (n + 1))) \<and>
        fst ` set (messages st) = (\<lambda>k. uuid4 e (k + 2)) ` {..<n} \<and>
        (\<forall>i r. map_of (messages st) i = Some r \<longrightarrow> r < n \<and> uuid4 e (r + 2) = i))"

text \<open>
  With fresh identifiers the dictionary leads from the identifier of message \<open>k\<close> to
  object \<open>k\<close>, and each message but the last has exactly its successor as child.
\<close>

definition linked :: "env \<Rightarrow> loop_state \<Rightarrow> bool" where
  "linked e st =
     (let n = length (objects st) in
        (\<forall>k<n. map_of (messages st) (uuid4 e (k + 2)) = Some k) \<and>
        (\<forall>k<n. m_childrenIds (objects st ! k) = (if Suc k < n then [uuid4 e (Suc k + 2)] else [])))"

section \<open>Facts about the Python operations\<close>

lemma bind_Inr [simp]: "bind (Inr x) f = f x"
  by (simp add: bind_def)

lemma bind_Inl [simp]: "bind (Inl e) f = Inl e"
  by (simp add: bind_def)

lemma bind_eq_Inr: "(bind m f = Inr y) = (\<exists>x. m = Inr x \<and> f x = Inr y)"
  by (cases m) simp_all

lemma strings_of_strs [simp]: "strings_of (map JStr ss) = Inr ss"
  by (induction ss) simp_all

lemma py_join_strs [simp]: "py_join sep (map JStr ss) = Inr (join_strings sep ss)"
  by (simp add: py_join_def)

section \<open>Thought chunks\<close>

lemma shaped_part_reads:
  assumes "shaped_part p"
  shows "py_get p ''text'' (JStr '''') = Inr (JStr (text_of p))"
    and "\<exists>b. py_get p ''thought'' (JBool False) = Inr b \<and> py_truthy b = flagged p ''thought''"
  using assms
  by (auto simp: shaped_part_def absent_or_def is_str_def text_of_def flagged_def
           split: json.splits option.splits)

lemma thought_texts_shaped:
  "list_all shaped_part ps \<Longrightarrow> thought_texts ps = Inr (map JStr (flagged_texts ps))"
proof (induction ps)
  case Nil
  show ?case by (simp add: flagged_texts_def)
next
  case (Cons p ps)
  then have p: "shaped_part p" and ih: "thought_texts ps = Inr (map JStr (flagged_texts ps))"
    by simp_all
  from shaped_part_reads(2)[OF p] obtain b
    where b: "py_get p ''thought'' (JBool False) = Inr b" "py_truthy b = flagged p ''thought''"
    by blast
  show ?case
    using b ih shaped_part_reads(1)[OF p] by (simp add: flagged_texts_def)
qed

lemma shaped_chunk_text:
  assumes "shaped_chunk c"
  shows "py_get c ''text'' (JStr '''') = Inr (JStr (text_of c))"
  using assms
  by (auto simp: shaped_chunk_def absent_or_def is_str_def text_of_def
           split: json.splits option.splits)

lemma thought_content_shaped:
  assumes "shaped_chunk c"
  shows "thought_content c =
           Inr (JStr (if flagged_texts (parts_of c) \<noteq> []
                      then join_strings blank_line (flagged_texts (parts_of c))
                      else text_of c))"
proof -
  from assms obtain kvs where c: "c = JObj kvs"
    and ps: "absent_or (items_all shaped_part) kvs ''parts''"
    by (auto simp: shaped_chunk_def split: json.splits)
  note flat = shaped_chunk_text[OF assms]
  show ?thesis
  proof (cases "map_of kvs ''parts''")
    case None
    then show ?thesis using flat
      by (simp add: thought_content_def c parts_of_def flagged_texts_def)
  next
    case (Some v)
    with ps obtain xs where v: "v = JArr xs" and xs: "list_all shaped_part xs"
      by (auto simp: absent_or_def items_all_def split: json.splits)
    have parts: "py_get c ''parts'' (JArr []) = Inr (JArr xs)" "parts_of c = xs"
      using Some v by (simp_all add: c parts_of_def)
    show ?thesis
    proof (cases xs)
      case Nil
      then show ?thesis using flat parts
        by (simp add: thought_content_def flagged_texts_def)
    next
      case (Cons x xs')
      then have "py_truthy (JArr xs)" by simp
      then show ?thesis using flat parts thought_texts_shaped[OF xs]
        by (simp add: thought_content_def)
    qed
  qed
qed

lemma shaped_chunk_flag:
  assumes "shaped_chunk c"
  shows "\<exists>b. py_get c ''isThought'' (JBool False) = Inr b \<and> py_truthy b = flagged c ''isThought''"
  using assms by (auto simp: shaped_chunk_def flagged_def split: json.splits)

lemma process_thought_chunk:
  assumes "shaped_chunk c" and "flagged c ''isThought''"
  shows "process_chunk e d st c =
           Inr (st \<lparr> pending_thoughts := pending_thoughts st @
                  [JStr (if flagged_texts (parts_of c) \<noteq> []
                         then join_strings blank_line (flagged_texts (parts_of c))
                         else text_of c)] \<rparr>)"
proof -
  from shaped_chunk_flag[OF assms(1)] assms(2) obtain b
    where "py_get c ''isThought'' (JBool False) = Inr b" "py_truthy b"
    by auto
  then show ?thesis
    by (simp add: process_chunk_def thought_content_shaped[OF assms(1)])
qed

text \<open>
  C4, as amended. A thought chunk appends one string to the thought buffer and changes
  nothing else. The string is the blank-line concatenation, in part order, of the texts
  of the parts flagged as thought when the chunk has at least one such part; in every
  other case (no parts list, an empty one, or no part flagged) it is the flat text of
  the chunk, the empty string when that is absent.
\<close>

theorem thought_chunk_appends_flagged_parts_or_flat_text:
  assumes "shaped_chunk c" and "flagged c ''isThought''"
  shows "process_chunk e d st c =
           Inr (st \<lparr> pending_thoughts := pending_thoughts st @
                  [if flagged_texts (parts_of c) \<noteq> []
                   then JStr (join_strings blank_line (flagged_texts (parts_of c)))
                   else JStr (text_of c)] \<rparr>)"
  using process_thought_chunk[OF assms, of e d st] by (simp split: if_splits)

theorem thought_chunk_appends_flagged_parts_or_flat_text_witness:
  "shaped_chunk thought_chunk_flagged \<and> flagged thought_chunk_flagged ''isThought''
   \<and> process_chunk example_env example_doc initial_state thought_chunk_flagged =
       Inr (initial_state \<lparr> pending_thoughts := [JStr ''one\<newline>\<newline>two''] \<rparr>)"
proof -
  have s: "shaped_chunk thought_chunk_flagged" by code_simp
  have f: "flagged thought_chunk_flagged ''isThought''" by code_simp
  have v: "(if flagged_texts (parts_of thought_chunk_flagged) \<noteq> []
            then JStr (join_strings blank_line (flagged_texts (parts_of thought_chunk_flagged)))
            else JStr (text_of thought_chunk_flagged)) = JStr ''one\<newline>\<newline>two''"
    by code_simp
  have p: "pending_thoughts initial_state = []" by (simp add: initial_state_def)
  show ?thesis
    using thought_chunk_appends_flagged_parts_or_flat_text
            [OF s f, of example_env example_doc initial_state] s f
    by (simp only: v p append_Nil simp_thms)
qed

text \<open>
  C4 as the specification words it fails: a thought chunk whose parts list holds one
  part that is not flagged contributes its flat text, not the empty concatenation.
\<close>

theorem unflagged_parts_fall_back_to_flat_text_counterexample:
  "process_chunk example_env example_doc initial_state thought_chunk_unflagged =
     Inr (initial_state \<lparr> pending_thoughts := [JStr ''flat''] \<rparr>)
   \<and> specified_thought_text thought_chunk_unflagged = JStr ''''"
  by code_simp

section \<open>Linking a message to its parent\<close>

lemma length_append_child [simp]: "length (append_child objs r i) = length objs"
  by (simp add: append_child_def)

lemma length_link_parent [simp]: "length (link_parent objs msgs p i) = length objs"
  by (simp add: link_parent_def split: option.splits)

lemma append_child_nth:
  "k < length objs \<Longrightarrow>
   append_child objs r i ! k =
     (if k = r then (objs ! k) \<lparr> m_childrenIds := m_childrenIds (objs ! k) @ [i] \<rparr> else objs ! k)"
  by (simp add: append_child_def nth_list_update)

lemma link_parent_frame:
  assumes "k < length objs"
  shows "\<exists>cs. link_parent objs msgs p i ! k = (objs ! k) \<lparr> m_childrenIds := cs \<rparr>"
proof -
  have same: "\<exists>cs. objs ! k = (objs ! k) \<lparr> m_childrenIds := cs \<rparr>"
    by (rule exI[of _ "m_childrenIds (objs ! k)"]) simp
  show ?thesis
    using assms same
    by (auto simp: link_parent_def append_child_nth split: option.splits)
qed

lemma link_parent_fields:
  assumes "k < length objs"
  shows "m_id (link_parent objs msgs p i ! k) = m_id (objs ! k)"
    and "m_parentId (link_parent objs msgs p i ! k) = m_parentId (objs ! k)"
    and "m_role (link_parent objs msgs p i ! k) = m_role (objs ! k)"
    and "m_content (link_parent objs msgs p i ! k) = m_content (objs ! k)"
    and "m_timestamp (link_parent objs msgs p i ! k) = m_timestamp (objs ! k)"
    and "m_model (link_parent objs msgs p i ! k) = m_model (objs ! k)"
    and "m_modelName (link_parent objs msgs p i ! k) = m_modelName (objs ! k)"
    and "m_modelIdx (link_parent objs msgs p i ! k) = m_modelIdx (objs ! k)"
    and "m_done (link_parent objs msgs p i ! k) = m_done (objs ! k)"
  using link_parent_frame[OF assms, of msgs p i] by auto

section \<open>One turn chunk\<close>

text \<open>What a successful turn leaves: one new object, linked, and the updated variables.\<close>

lemma new_message_Inr:
  assumes "new_message d i p role content ts = Inr msg"
  shows "m_id msg = i" and "m_parentId msg = p" and "m_childrenIds msg = []"
    and "m_role msg = role" and "m_content msg = content" and "m_timestamp msg = ts"
  using assms by (auto simp: new_message_def Let_def bind_eq_Inr split: if_splits)

lemma turn_chunk_Inr:
  assumes "turn_chunk e d st c = Inr st'"
  shows "\<exists>msg. m_id msg = uuid4 e (uuid_calls st) \<and> m_parentId msg = parent_id st
           \<and> m_childrenIds msg = []
           \<and> messages st' = AList.update (m_id msg) (length (objects st)) (messages st)
           \<and> objects st' = link_parent (objects st @ [msg]) (messages st') (parent_id st) (m_id msg)
           \<and> messages_list st' = messages_list st @ [length (objects st)]
           \<and> parent_id st' = Some (m_id msg)
           \<and> uuid_calls st' = Suc (uuid_calls st)"
proof -
  from assms obtain role content pending msg where
    msg: "new_message d (uuid4 e (uuid_calls st)) (parent_id st) role content
            (now e + message_index st) = Inr msg"
    and st': "st' = \<lparr> objects = link_parent (objects st @ [msg])
                         (AList.update (uuid4 e (uuid_calls st)) (length (objects st)) (messages st))
                         (parent_id st) (uuid4 e (uuid_calls st)),
                      messages = AList.update (uuid4 e (uuid_calls st)) (length (objects st)) (messages st),
                      messages_list = messages_list st @ [length (objects st)],
                      parent_id = Some (uuid4 e (uuid_calls st)),
                      pending_thoughts = pending,
                      message_index = message_index st + 1,
                      uuid_calls = Suc (uuid_calls st) \<rparr>"
    by (auto simp: turn_chunk_def Let_def bind_eq_Inr)
  show ?thesis
    using new_message_Inr(1-3)[OF msg] by (intro exI[of _ msg]) (simp add: st')
qed

lemma numbered_turn:
  assumes inv: "numbered e st" and step: "turn_chunk e d st c = Inr st'"
  shows "numbered e st'"
proof -
  define n where "n = length (objects st)"
  from turn_chunk_Inr[OF step] obtain msg where
    mid: "m_id msg = uuid4 e (uuid_calls st)" and mpar: "m_parentId msg = parent_id st"
    and msgs: "messages st' = AList.update (m_id msg) n (messages st)"
    and objs: "objects st' = link_parent (objects st @ [msg]) (messages st') (parent_id st) (m_id msg)"
    and lst: "messages_list st' = messages_list st @ [n]"
    and par: "parent_id st' = Some (m_id msg)"
    and calls: "uuid_calls st' = Suc (uuid_calls st)"
    unfolding n_def by blast
  from inv have
    i1: "messages_list st = [0..<n]" and i2: "uuid_calls st = n + 2"
    and i3: "\<And>k. k < n \<Longrightarrow> m_id (objects st ! k) = uuid4 e (k + 2)"
    and i4: "\<And>k. k < n \<Longrightarrow> m_parentId (objects st ! k) = (if k = 0 then None else Some (uuid4 e (k + 1)))"
    and i5: "parent_id st = (if n = 0 then None else Some (uuid4 e (n + 1)))"
    and i6: "fst ` set (messages st) = (\<lambda>k. uuid4 e (k + 2)) ` {..<n}"
    and i7: "\<And>i r. map_of (messages st) i = Some r \<Longrightarrow> r < n \<and> uuid4 e (r + 2) = i"
    unfolding numbered_def Let_def n_def by blast+
  have len: "length (objects st') = Suc n"
    by (simp add: objs n_def)
  have id_new: "m_id msg = uuid4 e (n + 2)"
    by (simp add: mid i2)
  have nth: "\<And>k. k < Suc n \<Longrightarrow> m_id (objects st' ! k) = m_id ((objects st @ [msg]) ! k)
                 \<and> m_parentId (objects st' ! k) = m_parentId ((objects st @ [msg]) ! k)"
    by (simp add: objs link_parent_fields n_def)
  have c1: "messages_list st' = [0..<Suc n]"
    by (simp add: lst i1)
  have c2: "uuid_calls st' = Suc n + 2"
    by (simp add: calls i2)
  have c3: "m_id (objects st' ! k) = uuid4 e (k + 2)" if "k < Suc n" for k
  proof (cases "k < n")
    case True
    then show ?thesis using nth[OF that] i3[OF True] by (simp add: nth_append n_def)
  next
    case False
    with that have "k = n" by simp
    then show ?thesis using nth[OF that] id_new by (simp add: nth_append n_def)
  qed
  have c4: "m_parentId (objects st' ! k) = (if k = 0 then None else Some (uuid4 e (k + 1)))"
    if "k < Suc n" for k
  proof (cases "k < n")
    case True
    then show ?thesis using nth[OF that] i4[OF True] by (simp add: nth_append n_def)
  next
    case False
    with that have "k = n" by simp
    then show ?thesis using nth[OF that] mpar i5 by (simp add: nth_append n_def)
  qed
  have c5: "parent_id st' = (if Suc n = 0 then None else Some (uuid4 e (Suc n + 1)))"
    by (simp add: par id_new)
  have c6: "fst ` set (messages st') = (\<lambda>k. uuid4 e (k + 2)) ` {..<Suc n}"
    by (simp add: msgs dom_update i6 id_new lessThan_Suc)
  have c7: "r < Suc n \<and> uuid4 e (r + 2) = i" if "map_of (messages st') i = Some r" for i r
  proof (cases "i = m_id msg")
    case True
    with that have "r = n" by (simp add: msgs update_conv')
    then show ?thesis using True id_new by simp
  next
    case False
    with that have "map_of (messages st) i = Some r" by (simp add: msgs update_conv')
    from i7[OF this] show ?thesis by simp
  qed
  show ?thesis
    unfolding numbered_def Let_def len
    using c1 c2 c3 c4 c5 c6 c7 by blast
qed

lemma fresh_ids_inj:
  assumes "fresh_ids e m" and "i < m" and "j < m" and "uuid4 e (i + 2) = uuid4 e (j + 2)"
  shows "i = j"
proof -
  from assms(1) have "inj_on (\<lambda>k. uuid4 e (k + 2)) (set [0..<m])"
    by (simp add: fresh_ids_def distinct_map)
  then show ?thesis
    using assms(2-4) by (auto dest: inj_onD)
qed

lemma fresh_ids_nonempty:
  assumes "fresh_ids e m" and "i < m"
  shows "uuid4 e (i + 2) \<noteq> []"
proof
  assume "uuid4 e (i + 2) = []"
  then have "[] \<in> (\<lambda>k. uuid4 e (k + 2)) ` set [0..<m]"
    using assms(2) by (metis atLeast0LessThan imageI lessThan_iff set_upt)
  with assms(1) show False
    by (simp add: fresh_ids_def)
qed

lemma fresh_ids_mono:
  assumes "fresh_ids e m" and "k \<le> m"
  shows "fresh_ids e k"
proof -
  have "[0..<m] = [0..<k] @ [k..<m]"
    using assms(2) upt_add_eq_append[of 0 k "m - k"] by simp
  then show ?thesis
    using assms(1) unfolding fresh_ids_def by auto
qed

lemma linked_turn:
  assumes num: "numbered e st" and lnk: "linked e st"
    and step: "turn_chunk e d st c = Inr st'"
    and fresh: "fresh_ids e (Suc (length (objects st)))"
  shows "linked e st'"
proof -
  define n where "n = length (objects st)"
  from turn_chunk_Inr[OF step] obtain msg where
    mid: "m_id msg = uuid4 e (uuid_calls st)"
    and mch: "m_childrenIds msg = []"
    and msgs: "messages st' = AList.update (m_id msg) n (messages st)"
    and objs: "objects st' = link_parent (objects st @ [msg]) (messages st') (parent_id st) (m_id msg)"
    unfolding n_def by blast
  from num have i2: "uuid_calls st = n + 2"
    and i5: "parent_id st = (if n = 0 then None else Some (uuid4 e (n + 1)))"
    unfolding numbered_def Let_def n_def by blast+
  from lnk have
    l1: "\<And>k. k < n \<Longrightarrow> map_of (messages st) (uuid4 e (k + 2)) = Some k"
    and l2: "\<And>k. k < n \<Longrightarrow> m_childrenIds (objects st ! k) = (if Suc k < n then [uuid4 e (Suc k + 2)] else [])"
    unfolding linked_def Let_def n_def by blast+
  have fr: "fresh_ids e (Suc n)" using fresh by (simp add: n_def)
  have id_new: "m_id msg = uuid4 e (n + 2)"
    by (simp add: mid i2)
  have len: "length (objects st') = Suc n"
    by (simp add: objs n_def)
  have c1: "map_of (messages st') (uuid4 e (k + 2)) = Some k" if "k < Suc n" for k
  proof (cases "k < n")
    case True
    then have "uuid4 e (k + 2) \<noteq> uuid4 e (n + 2)"
      using fresh_ids_inj[OF fr, of k n] by auto
    then show ?thesis using l1[OF True] by (simp add: msgs update_conv' id_new)
  next
    case False
    with that have "k = n" by simp
    then show ?thesis by (simp add: msgs update_conv' id_new)
  qed
  have c2: "m_childrenIds (objects st' ! k) = (if Suc k < Suc n then [uuid4 e (Suc k + 2)] else [])"
    if "k < Suc n" for k
  proof (cases "n = 0")
    case True
    then have "objects st' = objects st @ [msg]"
      using i5 by (simp add: objs link_parent_def)
    moreover have "k = 0" using that True by simp
    ultimately show ?thesis using True mch by (simp add: n_def)
  next
    case False
    then obtain p where n: "n = Suc p" by (cases n) simp_all
    have par: "parent_id st = Some (uuid4 e (p + 2))"
      using i5 n by simp
    have ne: "uuid4 e (p + 2) \<noteq> []"
      using fresh_ids_nonempty[OF fr, of p] n by simp
    have look: "map_of (messages st') (uuid4 e (p + 2)) = Some p"
      using c1[of p] n by simp
    have objs': "objects st' = append_child (objects st @ [msg]) p (uuid4 e (n + 2))"
      using par ne look by (simp add: objs link_parent_def id_new)
    have kth: "m_childrenIds (objects st' ! k) =
                 (if k = p then m_childrenIds ((objects st @ [msg]) ! k) @ [uuid4 e (n + 2)]
                  else m_childrenIds ((objects st @ [msg]) ! k))"
      using that by (simp add: objs' append_child_nth n_def)
    show ?thesis
    proof (cases "k < n")
      case True
      then show ?thesis
        using kth l2[OF True] n by (auto simp: nth_append n_def)
    next
      case False
      with that have "k = n" by simp
      then show ?thesis
        using kth mch n by (simp add: nth_append n_def)
    qed
  qed
  show ?thesis
    unfolding linked_def Let_def len using c1 c2 by blast
qed

section \<open>The loop\<close>

lemma process_chunk_Inr:
  assumes "process_chunk e d st c = Inr st'"
  shows "turn_chunk e d st c = Inr st'
         \<or> (\<exists>t. st' = st \<lparr> pending_thoughts := pending_thoughts st @ [t] \<rparr>)"
  using assms by (auto simp: process_chunk_def bind_eq_Inr split: if_splits)

lemma numbered_pending [simp]:
  "numbered e (st \<lparr> pending_thoughts := p \<rparr>) = numbered e st"
  by (simp add: numbered_def)

lemma linked_pending [simp]:
  "linked e (st \<lparr> pending_thoughts := p \<rparr>) = linked e st"
  by (simp add: linked_def)

lemma numbered_process_chunk:
  assumes "numbered e st" and "process_chunk e d st c = Inr st'"
  shows "numbered e st'"
  using process_chunk_Inr[OF assms(2)] assms(1) numbered_turn by auto

lemma length_objects_turn:
  assumes "turn_chunk e d st c = Inr st'"
  shows "length (objects st') = Suc (length (objects st))"
  using turn_chunk_Inr[OF assms] by auto

lemma length_objects_process_chunk:
  assumes "process_chunk e d st c = Inr st'"
  shows "length (objects st) \<le> length (objects st')"
  using process_chunk_Inr[OF assms] length_objects_turn by fastforce

lemma length_objects_process_chunks:
  "process_chunks e d st cs = Inr st' \<Longrightarrow> length (objects st) \<le> length (objects st')"
proof (induction cs arbitrary: st)
  case Nil
  then show ?case by simp
next
  case (Cons c cs)
  then obtain st1 where 1: "process_chunk e d st c = Inr st1"
    and 2: "process_chunks e d st1 cs = Inr st'"
    by (auto simp: bind_eq_Inr)
  from length_objects_process_chunk[OF 1] Cons.IH[OF 2] show ?case by simp
qed

lemma linked_process_chunk:
  assumes "numbered e st" and "linked e st" and "process_chunk e d st c = Inr st'"
    and "fresh_ids e (length (objects st'))"
  shows "linked e st'"
proof -
  from process_chunk_Inr[OF assms(3)] show ?thesis
  proof
    assume t: "turn_chunk e d st c = Inr st'"
    with assms(4) have "fresh_ids e (Suc (length (objects st)))"
      by (simp add: length_objects_turn)
    from linked_turn[OF assms(1,2) t this] show ?thesis .
  next
    assume "\<exists>t. st' = st \<lparr> pending_thoughts := pending_thoughts st @ [t] \<rparr>"
    then show ?thesis using assms(2) by auto
  qed
qed

lemma numbered_process_chunks:
  "numbered e st \<Longrightarrow> process_chunks e d st cs = Inr st' \<Longrightarrow> numbered e st'"
proof (induction cs arbitrary: st)
  case Nil
  then show ?case by simp
next
  case (Cons c cs)
  then obtain st1 where 1: "process_chunk e d st c = Inr st1"
    and 2: "process_chunks e d st1 cs = Inr st'"
    by (auto simp: bind_eq_Inr)
  from Cons.IH[OF numbered_process_chunk[OF Cons.prems(1) 1] 2] show ?case .
qed

lemma linked_process_chunks:
  "numbered e st \<Longrightarrow> linked e st \<Longrightarrow> process_chunks e d st cs = Inr st' \<Longrightarrow>
   fresh_ids e (length (objects st')) \<Longrightarrow> linked e st'"
proof (induction cs arbitrary: st)
  case Nil
  then show ?case by simp
next
  case (Cons c cs)
  then obtain st1 where 1: "process_chunk e d st c = Inr st1"
    and 2: "process_chunks e d st1 cs = Inr st'"
    by (auto simp: bind_eq_Inr)
  have "fresh_ids e (length (objects st1))"
    using fresh_ids_mono[OF Cons.prems(4) length_objects_process_chunks[OF 2]] .
  from linked_process_chunk[OF Cons.prems(1,2) 1 this]
  have l1: "linked e st1" .
  from Cons.IH[OF numbered_process_chunk[OF Cons.prems(1) 1] l1 2 Cons.prems(4)] show ?case .
qed

lemma numbered_initial: "numbered e initial_state"
  by (simp add: numbered_def initial_state_def)

lemma linked_initial: "linked e initial_state"
  by (simp add: linked_def initial_state_def)

lemma convert_Inr:
  assumes "convert_aistudio_to_openwebui e d fn = Inr out" and "returned out = [r]"
  shows "\<exists>cs st model. process_chunks e d initial_state cs = Inr st
           \<and> store out = objects st
           \<and> chat_title fn (objects st) (messages_list st) = Inr (r_title r)
           \<and> run_model d = Inr model
           \<and> r_chat r = \<lparr> c_id = '''', c_title = r_title r, c_models = [model],
                          c_params = JObj [], c_history_messages = messages st,
                          c_history_currentId = parent_id st, c_messages = messages_list st,
                          c_tags = JArr [], c_timestamp = now e, c_files = JArr [] \<rparr>"
proof -
  from assms obtain cs st title model where
    run: "process_chunks e d initial_state cs = Inr st"
    and title: "chat_title fn (objects st) (messages_list st) = Inr title"
    and model: "run_model d = Inr model"
    and out: "store out = objects st"
    and r: "r_title r = title"
       "r_chat r = \<lparr> c_id = [], c_title = title, c_models = [model],
                     c_params = JObj [], c_history_messages = messages st,
                     c_history_currentId = parent_id st, c_messages = messages_list st,
                     c_tags = JArr [], c_timestamp = now e, c_files = JArr [] \<rparr>"
    by (auto simp: convert_aistudio_to_openwebui_def bind_eq_Inr Let_def split: if_splits)
  show ?thesis
    by (intro exI[of _ cs] exI[of _ st] exI[of _ model]) (simp add: run title model out r)
qed

section \<open>The chain and the two views of the messages\<close>

lemma convert_invariants:
  assumes "convert_aistudio_to_openwebui e d fn = Inr out" and "returned out = [r]"
  shows "\<exists>st. numbered e st \<and> (fresh_ids e (length (objects st)) \<longrightarrow> linked e st)
           \<and> store out = objects st
           \<and> c_history_messages (r_chat r) = messages st
           \<and> c_history_currentId (r_chat r) = parent_id st
           \<and> c_messages (r_chat r) = messages_list st"
proof -
  from convert_Inr[OF assms] obtain cs st model where
    run: "process_chunks e d initial_state cs = Inr st"
    and rest: "store out = objects st"
      "r_chat r = \<lparr> c_id = '''', c_title = r_title r, c_models = [model],
                    c_params = JObj [], c_history_messages = messages st,
                    c_history_currentId = parent_id st, c_messages = messages_list st,
                    c_tags = JArr [], c_timestamp = now e, c_files = JArr [] \<rparr>"
    by blast
  have "numbered e st"
    using numbered_process_chunks[OF numbered_initial run] .
  moreover have "linked e st" if "fresh_ids e (length (objects st))"
    using linked_process_chunks[OF numbered_initial linked_initial run that] .
  ultimately show ?thesis
    by (intro exI[of _ st]) (simp add: rest)
qed

text \<open>
  C2. In the messages list of a record, every message but the first has the identifier
  of the message before it as \<^verbatim>\<open>parentId\<close>, and that message has exactly this one
  identifier in \<^verbatim>\<open>childrenIds\<close>; the first message has no parent and the last no
  child. The identifiers that \<^verbatim>\<open>uuid4\<close> returned for the messages are taken to be
  distinct and non-empty.
\<close>

theorem messages_form_a_linear_chain:
  assumes "convert_aistudio_to_openwebui e d fn = Inr out" and "returned out = [r]"
    and "fresh_ids e (length (c_messages (r_chat r)))"
  shows "(\<forall>i. Suc i < length (listed out r) \<longrightarrow>
            m_parentId (listed out r ! Suc i) = Some (m_id (listed out r ! i))
            \<and> m_childrenIds (listed out r ! i) = [m_id (listed out r ! Suc i)])
         \<and> (listed out r \<noteq> [] \<longrightarrow>
              m_parentId (hd (listed out r)) = None
              \<and> m_childrenIds (last (listed out r)) = [])"
proof -
  from convert_invariants[OF assms(1,2)] obtain st where
    num: "numbered e st" and lnk: "fresh_ids e (length (objects st)) \<longrightarrow> linked e st"
    and out: "store out = objects st" "c_messages (r_chat r) = messages_list st"
    by blast
  define n where "n = length (objects st)"
  from num have lst: "messages_list st = [0..<n]"
    and ids: "\<And>k. k < n \<Longrightarrow> m_id (objects st ! k) = uuid4 e (k + 2)"
    and pars: "\<And>k. k < n \<Longrightarrow> m_parentId (objects st ! k) = (if k = 0 then None else Some (uuid4 e (k + 1)))"
    unfolding numbered_def Let_def n_def by blast+
  have "fresh_ids e n" using assms(3) by (simp add: out lst)
  with lnk have "linked e st" by (simp add: n_def)
  then have kids: "\<And>k. k < n \<Longrightarrow> m_childrenIds (objects st ! k) = (if Suc k < n then [uuid4 e (Suc k + 2)] else [])"
    unfolding linked_def Let_def n_def by blast
  have len: "length (listed out r) = n"
    by (simp add: listed_def out lst)
  have nth: "listed out r ! k = objects st ! k" if "k < n" for k
    using that by (simp add: listed_def out lst)
  have chain: "m_parentId (listed out r ! Suc i) = Some (m_id (listed out r ! i))
               \<and> m_childrenIds (listed out r ! i) = [m_id (listed out r ! Suc i)]"
    if "Suc i < length (listed out r)" for i
  proof -
    from that have i: "i < n" "Suc i < n" by (simp_all add: len)
    show ?thesis
      using i by (simp add: nth ids pars kids)
  qed
  have ends: "m_parentId (hd (listed out r)) = None \<and> m_childrenIds (last (listed out r)) = []"
    if "listed out r \<noteq> []"
  proof -
    from that have pos: "0 < n" using len by (cases n) auto
    have "hd (listed out r) = objects st ! 0"
      using that nth[OF pos] by (simp add: hd_conv_nth)
    moreover have "last (listed out r) = objects st ! (n - 1)"
      using that nth[of "n - 1"] pos by (simp add: last_conv_nth len)
    ultimately show ?thesis
      using pars[OF pos] kids[of "n - 1"] pos by simp
  qed
  show ?thesis using chain ends by blast
qed

theorem messages_form_a_linear_chain_witness:
  "convert_aistudio_to_openwebui example_env example_doc None = Inr example_outcome
   \<and> returned example_outcome = [example_record]
   \<and> fresh_ids example_env (length (c_messages (r_chat example_record)))
   \<and> length (listed example_outcome example_record) = 3
   \<and> m_parentId (listed example_outcome example_record ! 1)
       = Some (m_id (listed example_outcome example_record ! 0))
   \<and> m_childrenIds (listed example_outcome example_record ! 0)
       = [m_id (listed example_outcome example_record ! 1)]
   \<and> m_parentId (listed example_outcome example_record ! 2)
       = Some (m_id (listed example_outcome example_record ! 1))
   \<and> m_childrenIds (listed example_outcome example_record ! 1)
       = [m_id (listed example_outcome example_record ! 2)]
   \<and> m_parentId (hd (listed example_outcome example_record)) = None
   \<and> m_childrenIds (last (listed example_outcome example_record)) = []"
proof -
  have h1: "convert_aistudio_to_openwebui example_env example_doc None = Inr example_outcome"
    by code_simp
  have h2: "returned example_outcome = [example_record]"
    by (simp add: example_outcome_def)
  have h3: "fresh_ids example_env (length (c_messages (r_chat example_record)))"
    by code_simp
  have len: "length (listed example_outcome example_record) = 3"
    by code_simp
  then have ne: "listed example_outcome example_record \<noteq> []"
    by auto
  note chain = messages_form_a_linear_chain[OF h1 h2 h3]
  from chain len have "m_parentId (listed example_outcome example_record ! Suc 0)
       = Some (m_id (listed example_outcome example_record ! 0))
     \<and> m_childrenIds (listed example_outcome example_record ! 0)
       = [m_id (listed example_outcome example_record ! Suc 0)]"
    by simp
  moreover from chain len have "m_parentId (listed example_outcome example_record ! Suc 1)
       = Some (m_id (listed example_outcome example_record ! 1))
     \<and> m_childrenIds (listed example_outcome example_record ! 1)
       = [m_id (listed example_outcome example_record ! Suc 1)]"
    by simp
  moreover from chain ne have "m_parentId (hd (listed example_outcome example_record)) = None
     \<and> m_childrenIds (last (listed example_outcome example_record)) = []"
    by blast
  ultimately show ?thesis
    using h1 h2 h3 len by (simp add: numeral_2_eq_2)
qed

lemma distinct_keys_process_chunk:
  assumes "distinct (map fst (messages st))" and "process_chunk e d st c = Inr st'"
  shows "distinct (map fst (messages st'))"
proof -
  from process_chunk_Inr[OF assms(2)] show ?thesis
  proof
    assume "turn_chunk e d st c = Inr st'"
    from turn_chunk_Inr[OF this] assms(1) show ?thesis
      by (auto simp: distinct_update)
  next
    assume "\<exists>t. st' = st \<lparr> pending_thoughts := pending_thoughts st @ [t] \<rparr>"
    then show ?thesis using assms(1) by auto
  qed
qed

lemma distinct_keys_process_chunks:
  "distinct (map fst (messages st)) \<Longrightarrow> process_chunks e d st cs = Inr st' \<Longrightarrow>
   distinct (map fst (messages st'))"
proof (induction cs arbitrary: st)
  case Nil
  then show ?case by simp
next
  case (Cons c cs)
  then obtain st1 where 1: "process_chunk e d st c = Inr st1"
    and 2: "process_chunks e d st1 cs = Inr st'"
    by (auto simp: bind_eq_Inr)
  from Cons.IH[OF distinct_keys_process_chunk[OF Cons.prems(1) 1] 2] show ?case .
qed

lemma convert_distinct_keys:
  assumes "convert_aistudio_to_openwebui e d fn = Inr out" and "returned out = [r]"
  shows "distinct (map fst (c_history_messages (r_chat r)))"
proof -
  from convert_Inr[OF assms] obtain cs st model where
    run: "process_chunks e d initial_state cs = Inr st"
    and rest: "r_chat r = \<lparr> c_id = '''', c_title = r_title r, c_models = [model],
                    c_params = JObj [], c_history_messages = messages st,
                    c_history_currentId = parent_id st, c_messages = messages_list st,
                    c_tags = JArr [], c_timestamp = now e, c_files = JArr [] \<rparr>"
    by blast
  have "distinct (map fst (messages initial_state))"
    by (simp add: initial_state_def)
  from distinct_keys_process_chunks[OF this run] show ?thesis
    by (simp add: rest)
qed

text \<open>
  C5. The keys of \<^verbatim>\<open>history.messages\<close> are distinct and are exactly the identifiers
  of the messages of the list, and every key leads to an object of the list that carries
  the key as its identifier: the dictionary and the list share their objects. When the
  identifiers are fresh, every object of the list is in turn the value of its key.
\<close>

theorem history_map_and_messages_list_agree:
  assumes "convert_aistudio_to_openwebui e d fn = Inr out" and "returned out = [r]"
  shows "distinct (map fst (c_history_messages (r_chat r)))
         \<and> fst ` set (c_history_messages (r_chat r)) = m_id ` set (listed out r)
         \<and> (\<forall>k a. map_of (c_history_messages (r_chat r)) k = Some a \<longrightarrow>
               a \<in> set (c_messages (r_chat r)) \<and> m_id (store out ! a) = k)
         \<and> (fresh_ids e (length (c_messages (r_chat r))) \<longrightarrow>
              (\<forall>a \<in> set (c_messages (r_chat r)).
                 map_of (c_history_messages (r_chat r)) (m_id (store out ! a)) = Some a))"
proof -
  from convert_invariants[OF assms] obtain st where
    num: "numbered e st" and lnk: "fresh_ids e (length (objects st)) \<longrightarrow> linked e st"
    and out: "store out = objects st" "c_messages (r_chat r) = messages_list st"
      "c_history_messages (r_chat r) = messages st"
    by blast
  define n where "n = length (objects st)"
  from num have lst: "messages_list st = [0..<n]"
    and ids: "\<And>k. k < n \<Longrightarrow> m_id (objects st ! k) = uuid4 e (k + 2)"
    and keys: "fst ` set (messages st) = (\<lambda>k. uuid4 e (k + 2)) ` {..<n}"
    and look: "\<And>i a. map_of (messages st) i = Some a \<Longrightarrow> a < n \<and> uuid4 e (a + 2) = i"
    unfolding numbered_def Let_def n_def by blast+
  have "m_id ` set (listed out r) = (\<lambda>k. m_id (objects st ! k)) ` {..<n}"
    by (simp add: listed_def out lst image_image atLeast0LessThan)
  also have "\<dots> = (\<lambda>k. uuid4 e (k + 2)) ` {..<n}"
    using ids by (intro image_cong) simp_all
  finally have c1: "fst ` set (c_history_messages (r_chat r)) = m_id ` set (listed out r)"
    by (simp add: out keys)
  have c2: "a \<in> set (c_messages (r_chat r)) \<and> m_id (store out ! a) = k"
    if "map_of (c_history_messages (r_chat r)) k = Some a" for k a
    using look[of k a] that ids[of a] by (simp add: out lst)
  have c3: "map_of (c_history_messages (r_chat r)) (m_id (store out ! a)) = Some a"
    if f: "fresh_ids e (length (c_messages (r_chat r)))" and a: "a \<in> set (c_messages (r_chat r))" for a
  proof -
    from f have "fresh_ids e n" by (simp add: out lst)
    with lnk have "linked e st" by (simp add: n_def)
    then have "\<And>k. k < n \<Longrightarrow> map_of (messages st) (uuid4 e (k + 2)) = Some k"
      unfolding linked_def Let_def n_def by blast
    moreover from a have "a < n" by (simp add: out lst)
    ultimately show ?thesis using ids[of a] by (simp add: out)
  qed
  show ?thesis
    using convert_distinct_keys[OF assms] c1 c2 c3 by blast
qed

theorem history_map_and_messages_list_agree_witness:
  "convert_aistudio_to_openwebui example_env example_doc None = Inr example_outcome
   \<and> returned example_outcome = [example_record]
   \<and> fresh_ids example_env (length (c_messages (r_chat example_record)))
   \<and> distinct (map fst (c_history_messages (r_chat example_record)))
   \<and> fst ` set (c_history_messages (r_chat example_record))
       = m_id ` set (listed example_outcome example_record)
   \<and> map_of (c_history_messages (r_chat example_record)) ''id-xxx'' = Some 1
   \<and> 1 \<in> set (c_messages (r_chat example_record))
   \<and> m_id (store example_outcome ! 1) = ''id-xxx''
   \<and> map_of (c_history_messages (r_chat example_record)) (m_id (store example_outcome ! 2)) = Some 2"
proof -
  have h1: "convert_aistudio_to_openwebui example_env example_doc None = Inr example_outcome"
    by code_simp
  have h2: "returned example_outcome = [example_record]"
    by (simp add: example_outcome_def)
  have h3: "fresh_ids example_env (length (c_messages (r_chat example_record)))"
    by code_simp
  have k: "map_of (c_history_messages (r_chat example_record)) ''id-xxx'' = Some 1"
    by code_simp
  have a: "2 \<in> set (c_messages (r_chat example_record))"
    by code_simp
  note agree = history_map_and_messages_list_agree[OF h1 h2]
  from agree k have "1 \<in> set (c_messages (r_chat example_record))
     \<and> m_id (store example_outcome ! 1) = ''id-xxx''"
    by blast
  moreover from agree h3 a
  have "map_of (c_history_messages (r_chat example_record)) (m_id (store example_outcome ! 2)) = Some 2"
    by blast
  ultimately show ?thesis
    using agree h1 h2 h3 k by blast
qed

section \<open>Turn chunks of a well-shaped document\<close>

lemma shaped_chunk_role:
  assumes "shaped_chunk c"
  shows "\<exists>r. py_get c ''role'' JNull = Inr r
            \<and> (if r = JStr ''user'' then ''user'' else ''assistant'') = role_of c"
  using assms by (auto simp: shaped_chunk_def role_of_def split: json.splits)

lemma shaped_doc_model:
  assumes "shaped_doc d"
  shows "run_model d = Inr (model_of d)"
  using assms
  by (auto simp: shaped_doc_def run_model_def model_of_def absent_or_def is_obj_def
           split: json.splits option.splits)

lemma prepend_thoughts_strs:
  "prepend_thoughts role (map JStr ths) (JStr t) =
     Inr (if role = ''assistant'' \<and> ths \<noteq> []
          then (JStr (thought_section (join_strings blank_line ths) @ t), [])
          else (JStr t, map JStr ths))"
  by (simp add: prepend_thoughts_def)

lemma new_message_shaped:
  assumes "shaped_doc d"
  shows "new_message d i p role content ts =
           Inr \<lparr> m_id = i, m_parentId = p, m_childrenIds = [], m_role = role,
                 m_content = content, m_timestamp = ts,
                 m_model = (if role = ''assistant'' then Some (model_of d) else None),
                 m_modelName = (if role = ''assistant'' then Some ''Converted from AIStudio'' else None),
                 m_modelIdx = (if role = ''assistant'' then Some 0 else None),
                 m_done = (if role = ''assistant'' then Some True else None) \<rparr>"
  by (simp add: new_message_def shaped_doc_model[OF assms])

lemma turn_chunk_shaped:
  fixes e d st c ths
  defines "prefixed \<equiv> role_of c = ''assistant'' \<and> ths \<noteq> []"
  defines "msg \<equiv>
     \<lparr> m_id = uuid4 e (uuid_calls st), m_parentId = parent_id st, m_childrenIds = [],
       m_role = role_of c,
       m_content = JStr (if prefixed then thought_section (join_strings blank_line ths) @ text_of c
                         else text_of c),
       m_timestamp = now e + message_index st,
       m_model = (if role_of c = ''assistant'' then Some (model_of d) else None),
       m_modelName = (if role_of c = ''assistant'' then Some ''Converted from AIStudio'' else None),
       m_modelIdx = (if role_of c = ''assistant'' then Some 0 else None),
       m_done = (if role_of c = ''assistant'' then Some True else None) \<rparr>"
  assumes c: "shaped_chunk c" and d: "shaped_doc d" and p: "pending_thoughts st = map JStr ths"
  shows "turn_chunk e d st c =
           Inr \<lparr> objects = link_parent (objects st @ [msg])
                             (AList.update (uuid4 e (uuid_calls st)) (length (objects st)) (messages st))
                             (parent_id st) (uuid4 e (uuid_calls st)),
                 messages = AList.update (uuid4 e (uuid_calls st)) (length (objects st)) (messages st),
                 messages_list = messages_list st @ [length (objects st)],
                 parent_id = Some (uuid4 e (uuid_calls st)),
                 pending_thoughts = (if prefixed then [] else map JStr ths),
                 message_index = message_index st + 1,
                 uuid_calls = Suc (uuid_calls st) \<rparr>"
proof -
  from shaped_chunk_role[OF c] obtain r where
    r: "py_get c ''role'' JNull = Inr r"
       "(if r = JStr ''user'' then ''user'' else ''assistant'') = role_of c"
    by blast
  show ?thesis
    unfolding turn_chunk_def Let_def
    by (simp add: r shaped_chunk_text[OF c] p prepend_thoughts_strs new_message_shaped[OF d]
                  prefixed_def msg_def)
qed

section \<open>A well-shaped document never raises\<close>

lemma strs_of_all_str:
  assumes "list_all is_str vs"
  shows "\<exists>ss. vs = map JStr ss"
  using assms
proof (induction vs)
  case Nil
  then show ?case by simp
next
  case (Cons v vs)
  then obtain s ss where "v = JStr s" "vs = map JStr ss"
    by (auto simp: is_str_def split: json.splits)
  then have "v # vs = map JStr (s # ss)" by simp
  then show ?case by (rule exI[of _ "s # ss"])
qed

lemma is_str_JStr [simp]: "is_str (JStr s)"
  by (simp add: is_str_def)

lemma all_str_strs [simp]: "list_all is_str (map JStr ss)"
  by (induction ss) simp_all

lemma link_parent_contents:
  "list_all (\<lambda>m. is_str (m_content m)) (link_parent objs msgs p i)
     = list_all (\<lambda>m. is_str (m_content m)) objs"
  by (simp add: list_all_length link_parent_fields(4))

lemma process_chunk_shaped:
  assumes c: "shaped_chunk c" and d: "shaped_doc d"
    and p: "list_all is_str (pending_thoughts st)"
    and o: "list_all (\<lambda>m. is_str (m_content m)) (objects st)"
  shows "\<exists>st'. process_chunk e d st c = Inr st'
           \<and> list_all is_str (pending_thoughts st')
           \<and> list_all (\<lambda>m. is_str (m_content m)) (objects st')"
proof (cases "flagged c ''isThought''")
  case True
  show ?thesis
    using process_thought_chunk[OF c True, of e d st] p o
    by simp
next
  case False
  from shaped_chunk_flag[OF c] False obtain b
    where b: "py_get c ''isThought'' (JBool False) = Inr b" "\<not> py_truthy b"
    by auto
  from strs_of_all_str[OF p] obtain ths where ths: "pending_thoughts st = map JStr ths"
    by blast
  have "process_chunk e d st c = turn_chunk e d st c"
    using b by (simp add: process_chunk_def)
  then show ?thesis
    using o by (simp add: turn_chunk_shaped[OF c d ths] link_parent_contents)
qed

lemma process_chunks_shaped:
  "list_all shaped_chunk cs \<Longrightarrow> shaped_doc d \<Longrightarrow>
   list_all is_str (pending_thoughts st) \<Longrightarrow>
   list_all (\<lambda>m. is_str (m_content m)) (objects st) \<Longrightarrow>
   \<exists>st'. process_chunks e d st cs = Inr st'
         \<and> list_all is_str (pending_thoughts st')
         \<and> list_all (\<lambda>m. is_str (m_content m)) (objects st')"
proof (induction cs arbitrary: st)
  case Nil
  then show ?case by simp
next
  case (Cons c cs)
  from Cons.prems(1) have c: "shaped_chunk c" and cs: "list_all shaped_chunk cs"
    by simp_all
  from process_chunk_shaped[OF c Cons.prems(2,3,4), of e] obtain st1 where
    1: "process_chunk e d st c = Inr st1"
    and p1: "list_all is_str (pending_thoughts st1)"
    and o1: "list_all (\<lambda>m. is_str (m_content m)) (objects st1)"
    by blast
  from Cons.IH[OF cs Cons.prems(2) p1 o1] show ?case
    by (simp add: 1)
qed

lemma shaped_doc_chunks:
  assumes "shaped_doc d"
  shows "\<exists>cp. py_get d ''chunkedPrompt'' (JObj []) = Inr cp
            \<and> py_get cp ''chunks'' (JArr []) = Inr (JArr (chunks_of d))"
    and "list_all shaped_chunk (chunks_of d)"
  using assms
  by (auto simp: shaped_doc_def shaped_prompt_def chunks_of_def absent_or_def items_all_def
           split: json.splits option.splits)

text \<open>The title read off the final state.\<close>

lemma first_message_title_strs:
  assumes "messages_list st = [0..<length (objects st)]"
    and "list_all (\<lambda>m. is_str (m_content m)) (objects st)"
  shows "\<exists>s. first_message_title (objects st) (messages_list st) = Inr (JStr s)
           \<and> (if objects st \<noteq> [] \<and> m_role (hd (objects st)) = ''user''
               then \<exists>t. m_content (hd (objects st)) = JStr t
                        \<and> s = (if length t \<le> 50 then t else take 50 t @ ''...'')
               else s = ''AIStudio Conversation'')"
proof (cases "objects st")
  case Nil
  then show ?thesis using assms(1) by (simp add: first_message_title_def)
next
  case (Cons m ms)
  have "[0..<Suc (length ms)] = 0 # [Suc 0..<Suc (length ms)]"
    by (rule upt_conv_Cons) simp
  then have lst: "messages_list st = 0 # [Suc 0..<Suc (length ms)]"
    using assms(1) Cons by (simp only: list.size add_Suc_right add_0_right)
  from Cons assms(2) obtain t where t: "m_content m = JStr t"
    by (auto simp: is_str_def split: json.splits)
  show ?thesis
    using t by (simp add: first_message_title_def lst Cons)
qed

lemma convert_shaped_empty:
  assumes "shaped_doc d" and "chunks_of d = []"
  shows "convert_aistudio_to_openwebui e d fn = Inr \<lparr> store = [], returned = [] \<rparr>"
proof -
  from shaped_doc_chunks(1)[OF assms(1)] obtain cp where
    "py_get d ''chunkedPrompt'' (JObj []) = Inr cp"
    "py_get cp ''chunks'' (JArr []) = Inr (JArr (chunks_of d))"
    by blast
  then show ?thesis
    using assms(2) by (simp add: convert_aistudio_to_openwebui_def)
qed

lemma convert_shaped_chunks:
  assumes d: "shaped_doc d" and ne: "chunks_of d \<noteq> []"
  shows "\<exists>st title. process_chunks e d initial_state (chunks_of d) = Inr st
           \<and> list_all (\<lambda>m. is_str (m_content m)) (objects st)
           \<and> chat_title fn (objects st) (messages_list st) = Inr (JStr title)
           \<and> convert_aistudio_to_openwebui e d fn =
               Inr \<lparr> store = objects st,
                     returned =
                       [\<lparr> r_id = uuid4 e 0, r_user_id = uuid4 e 1, r_title = JStr title,
                          r_chat = \<lparr> c_id = '''', c_title = JStr title,
                                     c_models = [model_of d], c_params = JObj [],
                                     c_history_messages = messages st,
                                     c_history_currentId = parent_id st,
                                     c_messages = messages_list st,
                                     c_tags = JArr [], c_timestamp = now e,
                                     c_files = JArr [] \<rparr>,
                          r_updated_at = now e, r_created_at = now e,
                          r_archived = False, r_pinned = False,
                          r_meta_tags = [''aistudio'', ''converted''] \<rparr>] \<rparr>"
proof -
  from shaped_doc_chunks(1)[OF d] obtain cp where
    cp: "py_get d ''chunkedPrompt'' (JObj []) = Inr cp"
        "py_get cp ''chunks'' (JArr []) = Inr (JArr (chunks_of d))"
    by blast
  have init: "list_all is_str (pending_thoughts initial_state)"
    "list_all (\<lambda>m. is_str (m_content m)) (objects initial_state)"
    by (simp_all add: initial_state_def)
  from process_chunks_shaped[OF shaped_doc_chunks(2)[OF d] d init, of e] obtain st where
    run: "process_chunks e d initial_state (chunks_of d) = Inr st"
    and strs: "list_all (\<lambda>m. is_str (m_content m)) (objects st)"
    by blast
  have "numbered e st"
    using numbered_process_chunks[OF numbered_initial run] .
  then have lst: "messages_list st = [0..<length (objects st)]"
    unfolding numbered_def Let_def by blast
  from first_message_title_strs[OF lst strs] obtain s where
    s: "first_message_title (objects st) (messages_list st) = Inr (JStr s)"
    by blast
  then have "\<exists>title. chat_title fn (objects st) (messages_list st) = Inr (JStr title)"
    by (cases fn) (simp_all add: chat_title_def)
  then obtain title where
    title: "chat_title fn (objects st) (messages_list st) = Inr (JStr title)"
    by blast
  have "convert_aistudio_to_openwebui e d fn =
               Inr \<lparr> store = objects st,
                     returned =
                       [\<lparr> r_id = uuid4 e 0, r_user_id = uuid4 e 1, r_title = JStr title,
                          r_chat = \<lparr> c_id = '''', c_title = JStr title,
                                     c_models = [model_of d], c_params = JObj [],
                                     c_history_messages = messages st,
                                     c_history_currentId = parent_id st,
                                     c_messages = messages_list st,
                                     c_tags = JArr [], c_timestamp = now e,
                                     c_files = JArr [] \<rparr>,
                          r_updated_at = now e, r_created_at = now e,
                          r_archived = False, r_pinned = False,
                          r_meta_tags = [''aistudio'', ''converted''] \<rparr>] \<rparr>"
    using ne by (simp add: convert_aistudio_to_openwebui_def cp run title shaped_doc_model[OF d] Let_def)
  with run strs title show ?thesis by blast
qed

section \<open>Empty sources, and sources with chunks\<close>

text \<open>
  C8. A source whose chunk list is absent or empty converts to the empty list, and a
  source with at least one chunk converts to a list of exactly one record; neither
  raises.
\<close>

theorem empty_source_gives_empty_list_else_one_record:
  assumes "shaped_doc d"
  shows "(chunks_of d = [] \<longrightarrow>
            convert_aistudio_to_openwebui e d fn = Inr \<lparr> store = [], returned = [] \<rparr>)
         \<and> (chunks_of d \<noteq> [] \<longrightarrow>
              (\<exists>out r. convert_aistudio_to_openwebui e d fn = Inr out \<and> returned out = [r]))"
proof (cases "chunks_of d = []")
  case True
  then show ?thesis using convert_shaped_empty[OF assms] by simp
next
  case False
  from convert_shaped_chunks[OF assms False, of e fn] obtain out r where
    "convert_aistudio_to_openwebui e d fn = Inr out" "returned out = [r]"
    by force
  with False show ?thesis by blast
qed

theorem empty_source_gives_empty_list_else_one_record_witness:
  "shaped_doc empty_doc \<and> chunks_of empty_doc = []
   \<and> \<not> has_field empty_doc ''chunkedPrompt''
   \<and> convert_aistudio_to_openwebui example_env empty_doc None = Inr \<lparr> store = [], returned = [] \<rparr>
   \<and> shaped_doc example_doc \<and> chunks_of example_doc \<noteq> []
   \<and> (\<exists>out r. convert_aistudio_to_openwebui example_env example_doc None = Inr out
               \<and> returned out = [r])"
proof -
  have h1: "shaped_doc empty_doc" by code_simp
  have h2: "chunks_of empty_doc = []" by code_simp
  have h3: "\<not> has_field empty_doc ''chunkedPrompt''" by code_simp
  have h4: "shaped_doc example_doc" by code_simp
  have h5: "chunks_of example_doc \<noteq> []" by code_simp
  show ?thesis
    using empty_source_gives_empty_list_else_one_record[OF h1, of example_env None]
      empty_source_gives_empty_list_else_one_record[OF h4, of example_env None]
      h1 h2 h3 h4 h5
    by blast
qed

section \<open>A conversation of thoughts only\<close>

lemma thoughts_only_run:
  "list_all shaped_chunk cs \<Longrightarrow> list_all (\<lambda>c. flagged c ''isThought'') cs \<Longrightarrow>
   \<exists>p. process_chunks e d st cs = Inr (st \<lparr> pending_thoughts := p \<rparr>)"
proof (induction cs arbitrary: st)
  case Nil
  have "process_chunks e d st [] = Inr (st \<lparr> pending_thoughts := pending_thoughts st \<rparr>)"
    by simp
  then show ?case by (rule exI)
next
  case (Cons c cs)
  from Cons.prems have c: "shaped_chunk c" "flagged c ''isThought''"
    and cs: "list_all shaped_chunk cs" "list_all (\<lambda>c. flagged c ''isThought'') cs"
    by simp_all
  from process_thought_chunk[OF c, of e d st] obtain t where
    1: "process_chunk e d st c = Inr (st \<lparr> pending_thoughts := t \<rparr>)"
    by blast
  from Cons.IH[OF cs, of "st \<lparr> pending_thoughts := t \<rparr>"] obtain p where
    "process_chunks e d (st \<lparr> pending_thoughts := t \<rparr>) cs = Inr (st \<lparr> pending_thoughts := p \<rparr>)"
    by auto
  then have "process_chunks e d st (c # cs) = Inr (st \<lparr> pending_thoughts := p \<rparr>)"
    by (simp add: 1)
  then show ?case by (rule exI)
qed

text \<open>
  C3, as amended. When every chunk of a non-empty source is a thought chunk, the single
  record returned has no message, and its \<^verbatim>\<open>currentId\<close> is \<^verbatim>\<open>None\<close>, the initial
  value of \<^verbatim>\<open>parent_id\<close> (line 33), not a string.
\<close>

theorem thoughts_only_source_has_no_current_id:
  assumes "shaped_doc d" and "chunks_of d \<noteq> []"
    and "list_all (\<lambda>c. flagged c ''isThought'') (chunks_of d)"
  shows "\<exists>out r. convert_aistudio_to_openwebui e d fn = Inr out \<and> returned out = [r]
           \<and> store out = [] \<and> c_messages (r_chat r) = []
           \<and> c_history_messages (r_chat r) = []
           \<and> c_history_currentId (r_chat r) = None"
proof -
  from thoughts_only_run[OF shaped_doc_chunks(2)[OF assms(1)] assms(3), of e d initial_state]
  obtain p where
    run: "process_chunks e d initial_state (chunks_of d) = Inr (initial_state \<lparr> pending_thoughts := p \<rparr>)"
    by blast
  from convert_shaped_chunks[OF assms(1,2), of e fn] run show ?thesis
    by (auto simp: initial_state_def)
qed

theorem thoughts_only_source_has_no_current_id_witness:
  "shaped_doc thoughts_only_doc \<and> chunks_of thoughts_only_doc \<noteq> []
   \<and> list_all (\<lambda>c. flagged c ''isThought'') (chunks_of thoughts_only_doc)
   \<and> (\<exists>out r. convert_aistudio_to_openwebui example_env thoughts_only_doc None = Inr out
         \<and> returned out = [r] \<and> store out = [] \<and> c_messages (r_chat r) = []
         \<and> c_history_messages (r_chat r) = []
         \<and> c_history_currentId (r_chat r) = None)"
proof -
  have h1: "shaped_doc thoughts_only_doc" by code_simp
  have h2: "chunks_of thoughts_only_doc \<noteq> []" by code_simp
  have h3: "list_all (\<lambda>c. flagged c ''isThought'') (chunks_of thoughts_only_doc)" by code_simp
  show ?thesis
    using thoughts_only_source_has_no_current_id[OF h1 h2 h3, of example_env None] h1 h2 h3
    by blast
qed

text \<open>
  C3 as the specification words it fails: the \<^verbatim>\<open>currentId\<close> of a conversation of
  thoughts only is \<^verbatim>\<open>None\<close>, which is not the empty string.
\<close>

theorem thoughts_only_current_id_counterexample:
  "convert_aistudio_to_openwebui example_env thoughts_only_doc None =
     Inr \<lparr> store = [], returned = [thoughts_only_record] \<rparr>
   \<and> c_history_currentId (r_chat thoughts_only_record) = None
   \<and> c_history_currentId (r_chat thoughts_only_record) \<noteq> Some ''''"
  by code_simp

section \<open>The title\<close>

lemma basename_split:
  "\<exists>dir. p = dir @ basename p \<and> (dir = [] \<or> last dir = CHR ''/'')"
proof -
  define dw where "dw = dropWhile (\<lambda>c. c \<noteq> CHR ''/'') (rev p)"
  have "rev p = takeWhile (\<lambda>c. c \<noteq> CHR ''/'') (rev p) @ dw"
    by (simp add: dw_def)
  then have "rev (rev p) = rev (takeWhile (\<lambda>c. c \<noteq> CHR ''/'') (rev p) @ dw)"
    by simp
  then have p: "p = rev dw @ basename p"
    by (simp add: basename_def)
  have "dw = [] \<or> hd dw = CHR ''/''"
    using hd_dropWhile[of "\<lambda>c. c \<noteq> CHR ''/''" "rev p"] by (auto simp: dw_def)
  then have "rev dw = [] \<or> last (rev dw) = CHR ''/''"
    by (auto simp: last_rev)
  with p show ?thesis by blast
qed

lemma basename_no_slash: "CHR ''/'' \<notin> set (basename p)"
  using set_takeWhileD[of "CHR ''/''" "\<lambda>c. c \<noteq> CHR ''/''" "rev p"]
  by (auto simp: basename_def)

lemma splitext_cases:
  "splitext p = (p, [])
   \<or> (CHR ''.'' \<in> set p
      \<and> splitext p =
          (take (length p - length (takeWhile (\<lambda>c. c \<noteq> CHR ''.'') (rev p)) - 1) p,
           CHR ''.'' # rev (takeWhile (\<lambda>c. c \<noteq> CHR ''.'') (rev p))))"
  unfolding splitext_def Let_def by (simp only: length_rev split: if_split) blast

lemma splitext_split:
  "p = fst (splitext p) @ snd (splitext p)
   \<and> (snd (splitext p) = []
      \<or> hd (snd (splitext p)) = CHR ''.'' \<and> CHR ''.'' \<notin> set (tl (snd (splitext p))))"
proof -
  define tw where "tw = takeWhile (\<lambda>c. c \<noteq> CHR ''.'') (rev p)"
  define dw where "dw = dropWhile (\<lambda>c. c \<noteq> CHR ''.'') (rev p)"
  have no_dot: "CHR ''.'' \<notin> set (rev tw)"
    using set_takeWhileD[of "CHR ''.''" "\<lambda>c. c \<noteq> CHR ''.''" "rev p"] by (auto simp: tw_def)
  from splitext_cases[of p] show ?thesis
  proof
    assume "splitext p = (p, [])"
    then show ?thesis by simp
  next
    assume "CHR ''.'' \<in> set p
      \<and> splitext p =
          (take (length p - length (takeWhile (\<lambda>c. c \<noteq> CHR ''.'') (rev p)) - 1) p,
           CHR ''.'' # rev (takeWhile (\<lambda>c. c \<noteq> CHR ''.'') (rev p)))"
    then have dot: "CHR ''.'' \<in> set p"
      and sp: "splitext p = (take (length p - length tw - 1) p, CHR ''.'' # rev tw)"
      by (simp_all add: tw_def)
    from dot have "dw \<noteq> []"
      by (simp add: dw_def)
    then have "hd dw = CHR ''.''"
      using hd_dropWhile[of "\<lambda>c. c \<noteq> CHR ''.''" "rev p"] by (simp add: dw_def)
    with \<open>dw \<noteq> []\<close> obtain rest where dw: "dw = CHR ''.'' # rest"
      by (cases dw) simp_all
    have "rev p = tw @ dw"
      by (simp add: tw_def dw_def)
    then have "rev (rev p) = rev (tw @ dw)" by (rule arg_cong)
    then have p: "p = rev rest @ CHR ''.'' # rev tw"
      by (simp add: dw)
    have len: "length p - length tw - 1 = length (rev rest)"
      by (subst p) simp
    have "take (length (rev rest)) (rev rest @ CHR ''.'' # rev tw) = rev rest"
      by simp
    then have "take (length p - length tw - 1) p = rev rest"
      using p len by metis
    then show ?thesis
      using sp p no_dot by simp
  qed
qed

lemma title_of_path:
  "\<exists>dir ext. f = dir @ fst (splitext (basename f)) @ ext
      \<and> (dir = [] \<or> last dir = CHR ''/'')
      \<and> CHR ''/'' \<notin> set (fst (splitext (basename f)) @ ext)
      \<and> (ext = [] \<or> hd ext = CHR ''.'' \<and> CHR ''.'' \<notin> set (tl ext))"
proof -
  from basename_split[of f] obtain dir where
    dir: "f = dir @ basename f" "dir = [] \<or> last dir = CHR ''/''"
    by blast
  define ext where "ext = snd (splitext (basename f))"
  from splitext_split[of "basename f"] have
    b: "basename f = fst (splitext (basename f)) @ ext"
    and e: "ext = [] \<or> hd ext = CHR ''.'' \<and> CHR ''.'' \<notin> set (tl ext)"
    by (simp_all add: ext_def)
  have "CHR ''/'' \<notin> set (fst (splitext (basename f)) @ ext)"
    using basename_no_slash[of f] b by metis
  moreover have "f = dir @ fst (splitext (basename f)) @ ext"
    using dir(1) b by metis
  ultimately show ?thesis
    using dir(2) e by blast
qed

lemma chat_title_shaped:
  assumes "messages_list st = [0..<length (objects st)]"
    and "list_all (\<lambda>m. is_str (m_content m)) (objects st)"
  shows "\<exists>t. chat_title fn (objects st) (messages_list st) = Inr (JStr t)
           \<and> (\<forall>f. fn = Some f \<and> f \<noteq> [] \<longrightarrow> t = fst (splitext (basename f)))
           \<and> (fn = None \<or> fn = Some [] \<longrightarrow>
                (if objects st \<noteq> [] \<and> m_role (hd (objects st)) = ''user''
                 then \<exists>s. m_content (hd (objects st)) = JStr s
                          \<and> t = (if length s \<le> 50 then s else take 50 s @ ''...'')
                 else t = ''AIStudio Conversation''))"
proof -
  from first_message_title_strs[OF assms] obtain s where
    s: "first_message_title (objects st) (messages_list st) = Inr (JStr s)"
       "if objects st \<noteq> [] \<and> m_role (hd (objects st)) = ''user''
        then \<exists>t. m_content (hd (objects st)) = JStr t
                 \<and> s = (if length t \<le> 50 then t else take 50 t @ ''...'')
        else s = ''AIStudio Conversation''"
    by blast
  show ?thesis
  proof (cases "fn = None \<or> fn = Some []")
    case True
    then have "chat_title fn (objects st) (messages_list st) = Inr (JStr s)"
      using s(1) by (auto simp: chat_title_def)
    then show ?thesis using True s(2) by auto
  next
    case False
    then obtain f where f: "fn = Some f" "f \<noteq> []" by (cases fn) auto
    then have "chat_title fn (objects st) (messages_list st) = Inr (JStr (fst (splitext (basename f))))"
      by (simp add: chat_title_def)
    then show ?thesis using f by auto
  qed
qed

lemma convert_shaped_title:
  assumes d: "shaped_doc d" and ne: "chunks_of d \<noteq> []"
  shows "\<exists>out r t. convert_aistudio_to_openwebui e d fn = Inr out \<and> returned out = [r]
           \<and> r_title r = JStr t \<and> c_title (r_chat r) = JStr t
           \<and> (\<forall>f. fn = Some f \<and> f \<noteq> [] \<longrightarrow> t = fst (splitext (basename f)))
           \<and> (fn = None \<or> fn = Some [] \<longrightarrow>
                (if listed out r \<noteq> [] \<and> m_role (hd (listed out r)) = ''user''
                 then \<exists>s. m_content (hd (listed out r)) = JStr s
                          \<and> t = (if length s \<le> 50 then s else take 50 s @ ''...'')
                 else t = ''AIStudio Conversation''))"
proof -
  from convert_shaped_chunks[OF d ne, of e fn] obtain st title where
    run: "process_chunks e d initial_state (chunks_of d) = Inr st"
    and strs: "list_all (\<lambda>m. is_str (m_content m)) (objects st)"
    and title: "chat_title fn (objects st) (messages_list st) = Inr (JStr title)"
    and conv: "convert_aistudio_to_openwebui e d fn =
               Inr \<lparr> store = objects st,
                     returned =
                       [\<lparr> r_id = uuid4 e 0, r_user_id = uuid4 e 1, r_title = JStr title,
                          r_chat = \<lparr> c_id = '''', c_title = JStr title,
                                     c_models = [model_of d], c_params = JObj [],
                                     c_history_messages = messages st,
                                     c_history_currentId = parent_id st,
                                     c_messages = messages_list st,
                                     c_tags = JArr [], c_timestamp = now e,
                                     c_files = JArr [] \<rparr>,
                          r_updated_at = now e, r_created_at = now e,
                          r_archived = False, r_pinned = False,
                          r_meta_tags = [''aistudio'', ''converted''] \<rparr>] \<rparr>"
      (is "_ = Inr ?out")
    by blast
  define r where "r = hd (returned ?out)"
  have "numbered e st"
    using numbered_process_chunks[OF numbered_initial run] .
  then have lst: "messages_list st = [0..<length (objects st)]"
    unfolding numbered_def Let_def by blast
  have listed: "listed ?out r = objects st"
    by (simp add: listed_def r_def lst map_nth)
  from chat_title_shaped[OF lst strs, of fn] title have
    "(\<forall>f. fn = Some f \<and> f \<noteq> [] \<longrightarrow> title = fst (splitext (basename f)))
     \<and> (fn = None \<or> fn = Some [] \<longrightarrow>
          (if objects st \<noteq> [] \<and> m_role (hd (objects st)) = ''user''
           then \<exists>s. m_content (hd (objects st)) = JStr s
                    \<and> title = (if length s \<le> 50 then s else take 50 s @ ''...'')
           else title = ''AIStudio Conversation''))"
    by auto
  then have "convert_aistudio_to_openwebui e d fn = Inr ?out \<and> returned ?out = [r]
           \<and> r_title r = JStr title \<and> c_title (r_chat r) = JStr title
           \<and> (\<forall>f. fn = Some f \<and> f \<noteq> [] \<longrightarrow> title = fst (splitext (basename f)))
           \<and> (fn = None \<or> fn = Some [] \<longrightarrow>
                (if listed ?out r \<noteq> [] \<and> m_role (hd (listed ?out r)) = ''user''
                 then \<exists>s. m_content (hd (listed ?out r)) = JStr s
                          \<and> title = (if length s \<le> 50 then s else take 50 s @ ''...'')
                 else title = ''AIStudio Conversation''))"
    unfolding listed using conv by (simp add: r_def)
  then show ?thesis by blast
qed

text \<open>
  C7, as amended. The title stands at the top level and in the chat object. With a
  non-empty hint it is the hint without its directory part (everything up to the last
  slash) and without its extension (the last dot of the base name and what follows,
  unless only dots precede it). Without a hint, or with the empty string as hint, it is
  the content of the first message when that is a user message, cut to 50 characters
  and followed by three dots when longer, and the fixed title otherwise.
\<close>

theorem title_from_hint_or_first_user_message:
  assumes "shaped_doc d" and "chunks_of d \<noteq> []"
  shows "\<exists>out r t. convert_aistudio_to_openwebui e d fn = Inr out \<and> returned out = [r]
           \<and> r_title r = JStr t \<and> c_title (r_chat r) = JStr t
           \<and> (\<forall>f. fn = Some f \<and> f \<noteq> [] \<longrightarrow>
                t = fst (splitext (basename f))
                \<and> (\<exists>dir ext. f = dir @ t @ ext
                      \<and> (dir = [] \<or> last dir = CHR ''/'')
                      \<and> CHR ''/'' \<notin> set (t @ ext)
                      \<and> (ext = [] \<or> hd ext = CHR ''.'' \<and> CHR ''.'' \<notin> set (tl ext))))
           \<and> (fn = None \<or> fn = Some [] \<longrightarrow>
                (if listed out r \<noteq> [] \<and> m_role (hd (listed out r)) = ''user''
                 then \<exists>s. m_content (hd (listed out r)) = JStr s
                          \<and> t = (if length s \<le> 50 then s else take 50 s @ ''...'')
                 else t = ''AIStudio Conversation''))"
proof -
  from convert_shaped_title[OF assms, of e fn] obtain out r t where
    1: "convert_aistudio_to_openwebui e d fn = Inr out" "returned out = [r]"
       "r_title r = JStr t" "c_title (r_chat r) = JStr t"
    and 2: "\<forall>f. fn = Some f \<and> f \<noteq> [] \<longrightarrow> t = fst (splitext (basename f))"
    and 3: "fn = None \<or> fn = Some [] \<longrightarrow>
                (if listed out r \<noteq> [] \<and> m_role (hd (listed out r)) = ''user''
                 then \<exists>s. m_content (hd (listed out r)) = JStr s
                          \<and> t = (if length s \<le> 50 then s else take 50 s @ ''...'')
                 else t = ''AIStudio Conversation'')"
    by blast
  have "t = fst (splitext (basename f))
        \<and> (\<exists>dir ext. f = dir @ t @ ext
              \<and> (dir = [] \<or> last dir = CHR ''/'')
              \<and> CHR ''/'' \<notin> set (t @ ext)
              \<and> (ext = [] \<or> hd ext = CHR ''.'' \<and> CHR ''.'' \<notin> set (tl ext)))"
    if "fn = Some f \<and> f \<noteq> []" for f
  proof -
    from 2 that have t: "t = fst (splitext (basename f))" by blast
    show ?thesis using title_of_path[of f] unfolding t by blast
  qed
  with 1 3 show ?thesis by blast
qed

theorem title_from_hint_or_first_user_message_witness:
  "shaped_doc example_doc \<and> chunks_of example_doc \<noteq> []
   \<and> (\<exists>out r. convert_aistudio_to_openwebui example_env example_doc
                  (Some ''exports/chat_2024.json'') = Inr out
         \<and> returned out = [r]
         \<and> r_title r = JStr ''chat_2024'' \<and> c_title (r_chat r) = JStr ''chat_2024'')
   \<and> shaped_doc long_question_doc \<and> chunks_of long_question_doc \<noteq> []
   \<and> (\<exists>out r. convert_aistudio_to_openwebui example_env long_question_doc None = Inr out
         \<and> returned out = [r]
         \<and> m_content (hd (listed out r))
             = JStr ''0123456789012345678901234567890123456789012345678901234567890''
         \<and> r_title r = JStr ''01234567890123456789012345678901234567890123456789...'')"
proof -
  have h1: "shaped_doc example_doc" by code_simp
  have h2: "chunks_of example_doc \<noteq> []" by code_simp
  have h3: "shaped_doc long_question_doc" by code_simp
  have h4: "chunks_of long_question_doc \<noteq> []" by code_simp
  have a: "\<exists>out r. convert_aistudio_to_openwebui example_env example_doc
                  (Some ''exports/chat_2024.json'') = Inr out
         \<and> returned out = [r]
         \<and> r_title r = JStr ''chat_2024'' \<and> c_title (r_chat r) = JStr ''chat_2024''"
  proof -
    from title_from_hint_or_first_user_message
           [OF h1 h2, of example_env "Some ''exports/chat_2024.json''"]
    obtain out r t where
      1: "convert_aistudio_to_openwebui example_env example_doc
            (Some ''exports/chat_2024.json'') = Inr out"
         "returned out = [r]" "r_title r = JStr t" "c_title (r_chat r) = JStr t"
      and 2: "t = fst (splitext (basename ''exports/chat_2024.json''))"
      by auto
    have "fst (splitext (basename ''exports/chat_2024.json'')) = ''chat_2024''"
      by code_simp
    with 1 2 show ?thesis by auto
  qed
  have b: "\<exists>out r. convert_aistudio_to_openwebui example_env long_question_doc None = Inr out
         \<and> returned out = [r]
         \<and> m_content (hd (listed out r))
             = JStr ''0123456789012345678901234567890123456789012345678901234567890''
         \<and> r_title r = JStr ''01234567890123456789012345678901234567890123456789...''"
  proof -
    from title_from_hint_or_first_user_message[OF h3 h4, of example_env None]
    obtain out r t where
      1: "convert_aistudio_to_openwebui example_env long_question_doc None = Inr out"
         "returned out = [r]" "r_title r = JStr t"
      and 2: "if listed out r \<noteq> [] \<and> m_role (hd (listed out r)) = ''user''
              then \<exists>s. m_content (hd (listed out r)) = JStr s
                       \<and> t = (if length s \<le> 50 then s else take 50 s @ ''...'')
              else t = ''AIStudio Conversation''"
      by auto
    have "case convert_aistudio_to_openwebui example_env long_question_doc None of
            Inl _ \<Rightarrow> False
          | Inr out \<Rightarrow>
              (case returned out of
                 [r] \<Rightarrow> listed out r \<noteq> [] \<and> m_role (hd (listed out r)) = ''user''
                        \<and> m_content (hd (listed out r))
                            = JStr ''0123456789012345678901234567890123456789012345678901234567890''
               | _ \<Rightarrow> False)"
      by code_simp
    with 1 have 3: "listed out r \<noteq> []" "m_role (hd (listed out r)) = ''user''"
      "m_content (hd (listed out r))
         = JStr ''0123456789012345678901234567890123456789012345678901234567890''"
      by simp_all
    with 2 have "t = (if length ''0123456789012345678901234567890123456789012345678901234567890'' \<le> 50
                      then ''0123456789012345678901234567890123456789012345678901234567890''
                      else take 50 ''0123456789012345678901234567890123456789012345678901234567890'' @ ''...'')"
      by auto
    also have "\<dots> = ''01234567890123456789012345678901234567890123456789...''"
      by code_simp
    finally show ?thesis using 1 3 by auto
  qed
  show ?thesis using h1 h2 h3 h4 a b by blast
qed

text \<open>
  C7 as the specification words it fails for the empty string as hint: line 111 tests
  the hint for truth, so the empty string counts as no hint and the title comes from
  the first user message, where stripping the hint would give the empty title.
\<close>

theorem empty_title_hint_counterexample:
  "convert_aistudio_to_openwebui example_env example_doc (Some '''') = Inr example_outcome
   \<and> returned example_outcome = [example_record]
   \<and> r_title example_record = JStr ''hi''
   \<and> fst (splitext (basename '''')) = ''''"
  by code_simp

section \<open>The message of a turn chunk\<close>

lemma absent_field_default:
  assumes "is_obj v" and "\<not> has_field v k"
  shows "py_get v k dflt = Inr dflt"
  using assms by (auto simp: is_obj_def has_field_def split: json.splits)

lemma shaped_chunk_is_obj: "shaped_chunk c \<Longrightarrow> is_obj c"
  by (auto simp: shaped_chunk_def is_obj_def split: json.splits)

lemma role_of_absent:
  assumes "shaped_chunk c" and "\<not> has_field c ''role''"
  shows "role_of c = ''assistant''"
  using absent_field_default[OF shaped_chunk_is_obj[OF assms(1)] assms(2), of JNull]
  by (simp add: role_of_def)

lemma role_of_cases: "role_of c = ''user'' \<or> role_of c = ''assistant''"
  by (simp add: role_of_def)

lemma process_turn_chunk:
  assumes "shaped_chunk c" and "\<not> flagged c ''isThought''"
  shows "process_chunk e d st c = turn_chunk e d st c"
proof -
  from shaped_chunk_flag[OF assms(1)] assms(2) obtain b
    where "py_get c ''isThought'' (JBool False) = Inr b" "\<not> py_truthy b"
    by auto
  then show ?thesis by (simp add: process_chunk_def)
qed

lemma process_turn_chunk_shaped:
  assumes c: "shaped_chunk c" and nt: "\<not> flagged c ''isThought''" and d: "shaped_doc d"
    and p: "pending_thoughts st = map JStr ths"
  shows "\<exists>st'. process_chunk e d st c = Inr st'
           \<and> length (objects st') = Suc (length (objects st))
           \<and> pending_thoughts st' = (if role_of c = ''assistant'' \<and> ths \<noteq> [] then [] else map JStr ths)
           \<and> m_role (objects st' ! length (objects st)) = role_of c
           \<and> m_content (objects st' ! length (objects st)) =
               JStr (if role_of c = ''assistant'' \<and> ths \<noteq> []
                     then thought_section (join_strings blank_line ths) @ text_of c
                     else text_of c)
           \<and> m_model (objects st' ! length (objects st)) =
               (if role_of c = ''assistant'' then Some (model_of d) else None)
           \<and> m_modelName (objects st' ! length (objects st)) =
               (if role_of c = ''assistant'' then Some ''Converted from AIStudio'' else None)
           \<and> m_modelIdx (objects st' ! length (objects st)) =
               (if role_of c = ''assistant'' then Some 0 else None)
           \<and> m_done (objects st' ! length (objects st)) =
               (if role_of c = ''assistant'' then Some True else None)
           \<and> (\<forall>k<length (objects st).
                 m_content (objects st' ! k) = m_content (objects st ! k)
                 \<and> m_role (objects st' ! k) = m_role (objects st ! k))"
  unfolding process_turn_chunk[OF c nt] turn_chunk_shaped[OF c d p]
  by (simp add: link_parent_fields nth_append)

text \<open>
  C1. An assistant turn chunk processed while thoughts are pending gets as content the
  reasoning block (the fixed \<^verbatim>\<open>details\<close> element with duration 5 and the summary
  \<^verbatim>\<open>Thought for 5 seconds\<close>) around the pending thoughts joined by a blank line, then a
  blank line, then its own text. The buffer is empty afterwards, so an assistant chunk
  that follows at once has its own text as content, and the first content stays.
\<close>

theorem pending_thoughts_prefix_the_next_assistant_message:
  assumes "shaped_doc d"
    and "shaped_chunk c1" and "\<not> flagged c1 ''isThought''" and "role_of c1 \<noteq> ''user''"
    and "shaped_chunk c2" and "\<not> flagged c2 ''isThought''" and "role_of c2 \<noteq> ''user''"
    and "pending_thoughts st = map JStr ths" and "ths \<noteq> []"
  shows \<open>\<exists>st1 st2. process_chunk e d st c1 = Inr st1
           \<and> length (objects st1) = Suc (length (objects st))
           \<and> m_role (objects st1 ! length (objects st)) = ''assistant''
           \<and> m_content (objects st1 ! length (objects st)) =
               JStr (''<details type="reasoning" done="true" duration="5">\<newline><summary>Thought for 5 seconds</summary>\<newline>''
                     @ join_strings ''\<newline>\<newline>'' ths @ ''\<newline></details>'' @ ''\<newline>\<newline>'' @ text_of c1)
           \<and> pending_thoughts st1 = []
           \<and> process_chunk e d st1 c2 = Inr st2
           \<and> length (objects st2) = Suc (length (objects st1))
           \<and> m_role (objects st2 ! length (objects st1)) = ''assistant''
           \<and> m_content (objects st2 ! length (objects st1)) = JStr (text_of c2)
           \<and> m_content (objects st2 ! length (objects st)) = m_content (objects st1 ! length (objects st))\<close>
proof -
  have r1: "role_of c1 = ''assistant''" and r2: "role_of c2 = ''assistant''"
    using role_of_cases[of c1] role_of_cases[of c2] assms(4,7) by auto
  from process_turn_chunk_shaped[OF assms(2,3,1,8), of e] obtain st1 where
    1: "process_chunk e d st c1 = Inr st1"
       "length (objects st1) = Suc (length (objects st))"
       "pending_thoughts st1 = []"
       "m_role (objects st1 ! length (objects st)) = ''assistant''"
       "m_content (objects st1 ! length (objects st)) =
          JStr (thought_section (join_strings blank_line ths) @ text_of c1)"
    using r1 assms(9) by auto
  have p1: "pending_thoughts st1 = map JStr []" using 1(3) by simp
  from process_turn_chunk_shaped[OF assms(5,6,1) p1, of e] obtain st2 where
    2: "process_chunk e d st1 c2 = Inr st2"
       "length (objects st2) = Suc (length (objects st1))"
       "m_role (objects st2 ! length (objects st1)) = ''assistant''"
       "m_content (objects st2 ! length (objects st1)) = JStr (text_of c2)"
       "\<forall>k<length (objects st1). m_content (objects st2 ! k) = m_content (objects st1 ! k)"
    using r2 by auto
  from 2(5) 1(2) have
    3: "m_content (objects st2 ! length (objects st)) = m_content (objects st1 ! length (objects st))"
    by simp
  show ?thesis
    using 1 2(1-4) 3 by (auto simp: thought_section_def blank_line_def)
qed

theorem pending_thoughts_prefix_the_next_assistant_message_witness:
  \<open>shaped_doc example_doc
   \<and> shaped_chunk hello_chunk \<and> \<not> flagged hello_chunk ''isThought'' \<and> role_of hello_chunk \<noteq> ''user''
   \<and> shaped_chunk again_chunk \<and> \<not> flagged again_chunk ''isThought'' \<and> role_of again_chunk \<noteq> ''user''
   \<and> pending_thoughts thinking_state = map JStr [''first'', ''second'']
   \<and> (\<exists>st1 st2. process_chunk example_env example_doc thinking_state hello_chunk = Inr st1
         \<and> m_content (objects st1 ! length (objects thinking_state)) =
             JStr ''<details type="reasoning" done="true" duration="5">\<newline><summary>Thought for 5 seconds</summary>\<newline>first\<newline>\<newline>second\<newline></details>\<newline>\<newline>hello''
         \<and> pending_thoughts st1 = []
         \<and> process_chunk example_env example_doc st1 again_chunk = Inr st2
         \<and> m_content (objects st2 ! length (objects st1)) = JStr ''again'')\<close>
proof -
  have h: \<open>shaped_doc example_doc\<close>
    "shaped_chunk hello_chunk" "\<not> flagged hello_chunk ''isThought''" "role_of hello_chunk \<noteq> ''user''"
    "shaped_chunk again_chunk" "\<not> flagged again_chunk ''isThought''" "role_of again_chunk \<noteq> ''user''"
    by code_simp+
  have p: "pending_thoughts thinking_state = map JStr [''first'', ''second'']"
    by (simp add: thinking_state_def)
  have ne: "[''first'', ''second''] \<noteq> ([] :: string list)" by simp
  have t: "text_of hello_chunk = ''hello''" "text_of again_chunk = ''again''"
    by code_simp+
  from pending_thoughts_prefix_the_next_assistant_message[OF h p ne, of example_env]
  obtain st1 st2 where
    \<open>process_chunk example_env example_doc thinking_state hello_chunk = Inr st1
     \<and> m_content (objects st1 ! length (objects thinking_state)) =
         JStr ''<details type="reasoning" done="true" duration="5">\<newline><summary>Thought for 5 seconds</summary>\<newline>first\<newline>\<newline>second\<newline></details>\<newline>\<newline>hello''
     \<and> pending_thoughts st1 = []
     \<and> process_chunk example_env example_doc st1 again_chunk = Inr st2
     \<and> m_content (objects st2 ! length (objects st1)) = JStr ''again''\<close>
    unfolding t by auto
  then have \<open>\<exists>st1 st2. process_chunk example_env example_doc thinking_state hello_chunk = Inr st1
     \<and> m_content (objects st1 ! length (objects thinking_state)) =
         JStr ''<details type="reasoning" done="true" duration="5">\<newline><summary>Thought for 5 seconds</summary>\<newline>first\<newline>\<newline>second\<newline></details>\<newline>\<newline>hello''
     \<and> pending_thoughts st1 = []
     \<and> process_chunk example_env example_doc st1 again_chunk = Inr st2
     \<and> m_content (objects st2 ! length (objects st1)) = JStr ''again''\<close>
    by (intro exI[of _ st1] exI[of _ st2])
  with h p show ?thesis by (intro conjI)
qed

text \<open>
  C6. The message of a turn chunk is a user message exactly when the role field of the
  chunk is the string \<^verbatim>\<open>user\<close>. For any other value, and for a chunk without a role
  field, it is an assistant message with the four model fields: the model identifier of
  the run configuration (\<^verbatim>\<open>"unknown"\<close> when there is none), the fixed model name, index
  0 and \<^verbatim>\<open>done\<close> true. A user message has none of the four.
\<close>

theorem role_is_user_only_for_exactly_user:
  assumes "shaped_doc d" and "shaped_chunk c" and "\<not> flagged c ''isThought''"
    and "list_all is_str (pending_thoughts st)"
  shows "\<exists>st'. process_chunk e d st c = Inr st'
           \<and> length (objects st') = Suc (length (objects st))
           \<and> (m_role (objects st' ! length (objects st)) = ''user''
                \<longleftrightarrow> py_get c ''role'' JNull = Inr (JStr ''user''))
           \<and> (if py_get c ''role'' JNull = Inr (JStr ''user'')
               then m_role (objects st' ! length (objects st)) = ''user''
                    \<and> m_model (objects st' ! length (objects st)) = None
                    \<and> m_modelName (objects st' ! length (objects st)) = None
                    \<and> m_modelIdx (objects st' ! length (objects st)) = None
                    \<and> m_done (objects st' ! length (objects st)) = None
               else m_role (objects st' ! length (objects st)) = ''assistant''
                    \<and> m_model (objects st' ! length (objects st)) = Some (model_of d)
                    \<and> m_modelName (objects st' ! length (objects st)) = Some ''Converted from AIStudio''
                    \<and> m_modelIdx (objects st' ! length (objects st)) = Some 0
                    \<and> m_done (objects st' ! length (objects st)) = Some True)
           \<and> (\<not> has_field c ''role'' \<longrightarrow> m_role (objects st' ! length (objects st)) = ''assistant'')
           \<and> run_model d = Inr (model_of d)"
proof -
  from strs_of_all_str[OF assms(4)] obtain ths where p: "pending_thoughts st = map JStr ths"
    by blast
  from process_turn_chunk_shaped[OF assms(2,3,1) p, of e] obtain st' where
    1: "process_chunk e d st c = Inr st'"
       "length (objects st') = Suc (length (objects st))"
       "m_role (objects st' ! length (objects st)) = role_of c"
       "m_model (objects st' ! length (objects st)) =
          (if role_of c = ''assistant'' then Some (model_of d) else None)"
       "m_modelName (objects st' ! length (objects st)) =
          (if role_of c = ''assistant'' then Some ''Converted from AIStudio'' else None)"
       "m_modelIdx (objects st' ! length (objects st)) =
          (if role_of c = ''assistant'' then Some 0 else None)"
       "m_done (objects st' ! length (objects st)) =
          (if role_of c = ''assistant'' then Some True else None)"
    by blast
  show ?thesis
  proof (cases "py_get c ''role'' JNull = Inr (JStr ''user'')")
    case True
    then have r: "role_of c = ''user''" by (simp add: role_of_def)
    have "has_field c ''role''"
      using role_of_absent[OF assms(2)] r by auto
    then show ?thesis
      using 1 True r shaped_doc_model[OF assms(1)] by (intro exI[of _ st']) simp
  next
    case False
    then have r: "role_of c = ''assistant''" by (simp add: role_of_def)
    show ?thesis
      using 1 False r shaped_doc_model[OF assms(1)] by (intro exI[of _ st']) simp
  qed
qed

theorem role_is_user_only_for_exactly_user_witness:
  "shaped_doc example_doc \<and> list_all is_str (pending_thoughts initial_state)
   \<and> shaped_chunk hi_chunk \<and> \<not> flagged hi_chunk ''isThought''
   \<and> py_get hi_chunk ''role'' JNull = Inr (JStr ''user'')
   \<and> (\<exists>st'. process_chunk example_env example_doc initial_state hi_chunk = Inr st'
         \<and> m_role (objects st' ! length (objects initial_state)) = ''user''
         \<and> m_model (objects st' ! length (objects initial_state)) = None
         \<and> m_modelName (objects st' ! length (objects initial_state)) = None
         \<and> m_modelIdx (objects st' ! length (objects initial_state)) = None
         \<and> m_done (objects st' ! length (objects initial_state)) = None)
   \<and> shaped_chunk again_chunk \<and> \<not> flagged again_chunk ''isThought''
   \<and> \<not> has_field again_chunk ''role''
   \<and> py_get again_chunk ''role'' JNull \<noteq> Inr (JStr ''user'')
   \<and> (\<exists>st'. process_chunk example_env example_doc initial_state again_chunk = Inr st'
         \<and> m_role (objects st' ! length (objects initial_state)) = ''assistant''
         \<and> m_model (objects st' ! length (objects initial_state)) = Some (JStr ''models/gemini'')
         \<and> m_modelName (objects st' ! length (objects initial_state)) = Some ''Converted from AIStudio''
         \<and> m_modelIdx (objects st' ! length (objects initial_state)) = Some 0
         \<and> m_done (objects st' ! length (objects initial_state)) = Some True)"
proof -
  have d: "shaped_doc example_doc" by code_simp
  have p: "list_all is_str (pending_thoughts initial_state)" by code_simp
  have u: "shaped_chunk hi_chunk" "\<not> flagged hi_chunk ''isThought''" by code_simp+
  have ur: "py_get hi_chunk ''role'' JNull = Inr (JStr ''user'')" by code_simp
  have a: "shaped_chunk again_chunk" "\<not> flagged again_chunk ''isThought''" by code_simp+
  have ar: "\<not> has_field again_chunk ''role''"
    "py_get again_chunk ''role'' JNull \<noteq> Inr (JStr ''user'')" by code_simp+
  have m: "model_of example_doc = JStr ''models/gemini''" by code_simp
  from role_is_user_only_for_exactly_user[OF d u p, of example_env] ur
  have 1: "\<exists>st'. process_chunk example_env example_doc initial_state hi_chunk = Inr st'
         \<and> m_role (objects st' ! length (objects initial_state)) = ''user''
         \<and> m_model (objects st' ! length (objects initial_state)) = None
         \<and> m_modelName (objects st' ! length (objects initial_state)) = None
         \<and> m_modelIdx (objects st' ! length (objects initial_state)) = None
         \<and> m_done (objects st' ! length (objects initial_state)) = None"
    by auto
  from role_is_user_only_for_exactly_user[OF d a p, of example_env] ar m
  have 2: "\<exists>st'. process_chunk example_env example_doc initial_state again_chunk = Inr st'
         \<and> m_role (objects st' ! length (objects initial_state)) = ''assistant''
         \<and> m_model (objects st' ! length (objects initial_state)) = Some (JStr ''models/gemini'')
         \<and> m_modelName (objects st' ! length (objects initial_state)) = Some ''Converted from AIStudio''
         \<and> m_modelIdx (objects st' ! length (objects initial_state)) = Some 0
         \<and> m_done (objects st' ! length (objects initial_state)) = Some True"
    by auto
  show ?thesis
    using d p u ur a ar 1 2 by (intro conjI)
qed

section \<open>No exception on a well-shaped document\<close>

lemma text_of_absent:
  assumes "shaped_chunk c" and "\<not> has_field c ''text''"
  shows "text_of c = ''''"
  using absent_field_default[OF shaped_chunk_is_obj[OF assms(1)] assms(2), of "JStr ''''"]
  by (simp add: text_of_def)

lemma turn_chunk_defaults:
  assumes c: "shaped_chunk c" and d: "shaped_doc d" and nt: "\<not> flagged c ''isThought''"
    and p: "pending_thoughts st = []"
  shows "\<exists>st'. process_chunk e d st c = Inr st'
           \<and> (\<not> has_field c ''role'' \<longrightarrow>
                 m_role (objects st' ! length (objects st)) = ''assistant''
                 \<and> m_model (objects st' ! length (objects st)) = Some (model_of d))
           \<and> (\<not> has_field c ''text'' \<longrightarrow>
                 m_content (objects st' ! length (objects st)) = JStr '''')"
proof -
  have p': "pending_thoughts st = map JStr []" using p by simp
  from process_turn_chunk_shaped[OF c nt d p', of e] obtain st' where
    1: "process_chunk e d st c = Inr st'"
       "m_role (objects st' ! length (objects st)) = role_of c"
       "m_content (objects st' ! length (objects st)) = JStr (text_of c)"
       "m_model (objects st' ! length (objects st)) =
          (if role_of c = ''assistant'' then Some (model_of d) else None)"
    by auto
  show ?thesis
    using 1 role_of_absent[OF c] text_of_absent[OF c] by (intro exI[of _ st']) simp
qed

lemma model_default:
  assumes "py_get d ''runSettings'' (JObj []) = Inr rs" and "\<not> has_field rs ''model''"
    and "shaped_doc d"
  shows "model_of d = JStr ''unknown''"
  using assms
  by (auto simp: shaped_doc_def model_of_def has_field_def absent_or_def is_obj_def
           split: json.splits option.splits)

text \<open>
  C9. On a source document in which every field is absent or of its type, the conversion
  returns (a list of at most one record) and raises nothing. A turn chunk without a role
  field becomes an assistant message, one without a text field gets the empty string as
  content (shown where no thought is pending, so that nothing is prefixed), and a run
  configuration without a model identifier gives the model \<^verbatim>\<open>"unknown"\<close>.
\<close>

theorem shaped_document_converts_without_exception:
  assumes "shaped_doc d"
  shows "(\<exists>out. convert_aistudio_to_openwebui e d fn = Inr out \<and> length (returned out) \<le> 1)
         \<and> (\<forall>c st. shaped_chunk c \<and> \<not> flagged c ''isThought'' \<and> pending_thoughts st = [] \<longrightarrow>
               (\<exists>st'. process_chunk e d st c = Inr st'
                  \<and> (\<not> has_field c ''role'' \<longrightarrow>
                        m_role (objects st' ! length (objects st)) = ''assistant''
                        \<and> m_model (objects st' ! length (objects st)) = Some (model_of d))
                  \<and> (\<not> has_field c ''text'' \<longrightarrow>
                        m_content (objects st' ! length (objects st)) = JStr '''')))
         \<and> (\<forall>rs. py_get d ''runSettings'' (JObj []) = Inr rs \<and> \<not> has_field rs ''model'' \<longrightarrow>
               model_of d = JStr ''unknown'')"
proof -
  have "\<exists>out. convert_aistudio_to_openwebui e d fn = Inr out \<and> length (returned out) \<le> 1"
  proof (cases "chunks_of d = []")
    case True
    then show ?thesis using convert_shaped_empty[OF assms] by simp
  next
    case False
    from convert_shaped_chunks[OF assms False, of e fn] show ?thesis by force
  qed
  then show ?thesis
    using turn_chunk_defaults[OF _ assms, of _ _ e] model_default[OF _ _ assms] by blast
qed

theorem shaped_document_converts_without_exception_witness:
  "shaped_doc bare_chunk_doc
   \<and> (\<exists>out. convert_aistudio_to_openwebui example_env bare_chunk_doc None = Inr out
            \<and> length (returned out) \<le> 1)
   \<and> shaped_chunk (JObj []) \<and> \<not> flagged (JObj []) ''isThought''
   \<and> \<not> has_field (JObj []) ''role'' \<and> \<not> has_field (JObj []) ''text''
   \<and> pending_thoughts initial_state = []
   \<and> (\<exists>st'. process_chunk example_env bare_chunk_doc initial_state (JObj []) = Inr st'
         \<and> m_role (objects st' ! length (objects initial_state)) = ''assistant''
         \<and> m_model (objects st' ! length (objects initial_state)) = Some (model_of bare_chunk_doc)
         \<and> m_content (objects st' ! length (objects initial_state)) = JStr '''')
   \<and> py_get bare_chunk_doc ''runSettings'' (JObj []) = Inr (JObj [])
   \<and> \<not> has_field (JObj []) ''model''
   \<and> model_of bare_chunk_doc = JStr ''unknown''"
proof -
  have h: "shaped_doc bare_chunk_doc" by code_simp
  have c: "shaped_chunk (JObj []) \<and> \<not> flagged (JObj []) ''isThought''
           \<and> \<not> has_field (JObj []) ''role'' \<and> \<not> has_field (JObj []) ''text''
           \<and> pending_thoughts initial_state = []"
    by code_simp
  have r: "py_get bare_chunk_doc ''runSettings'' (JObj []) = Inr (JObj [])
           \<and> \<not> has_field (JObj []) ''model''"
    by code_simp
  show ?thesis
    using shaped_document_converts_without_exception[OF h, of example_env None] h c r
    by blast
qed

section \<open>An empty thought still opens a reasoning block\<close>

lemma thought_section_not_plain: "thought_section x @ t \<noteq> t"
proof
  assume "thought_section x @ t = t"
  then have "length (thought_section x @ t) = length t" by simp
  then show False by (simp add: thought_section_def)
qed

lemma process_flagged_chunk:
  assumes "flagged c ''isThought''" and "thought_content c = Inr v"
  shows "process_chunk e d st c = Inr (st \<lparr> pending_thoughts := pending_thoughts st @ [v] \<rparr>)"
proof -
  from assms(1) obtain b where "py_get c ''isThought'' (JBool False) = Inr b" "py_truthy b"
    by (auto simp: flagged_def split: sum.splits)
  then show ?thesis by (simp add: process_chunk_def assms(2))
qed

text \<open>
  C10. A thought chunk whose thought text is the empty string still appends it, so the
  buffer is not empty, and the assistant message that follows is prefixed with a
  reasoning block (around the joined thoughts, blank when there was no other) and is not
  left with its plain text.
\<close>

theorem empty_thought_still_prefixes_reasoning_block:
  assumes "shaped_doc d"
    and "flagged t ''isThought''" and "thought_content t = Inr (JStr '''')"
    and "shaped_chunk a" and "\<not> flagged a ''isThought''" and "role_of a \<noteq> ''user''"
    and "pending_thoughts st = map JStr ths"
  shows "\<exists>st1 st2. process_chunk e d st t = Inr st1
           \<and> pending_thoughts st1 = pending_thoughts st @ [JStr '''']
           \<and> pending_thoughts st1 \<noteq> []
           \<and> objects st1 = objects st
           \<and> process_chunk e d st1 a = Inr st2
           \<and> m_content (objects st2 ! length (objects st)) =
               JStr (thought_section (join_strings blank_line (ths @ [''''])) @ text_of a)
           \<and> m_content (objects st2 ! length (objects st)) \<noteq> JStr (text_of a)
           \<and> (ths = [] \<longrightarrow> m_content (objects st2 ! length (objects st)) =
                              JStr (thought_section '''' @ text_of a))"
proof -
  define st1 where "st1 = st \<lparr> pending_thoughts := pending_thoughts st @ [JStr ''''] \<rparr>"
  have 1: "process_chunk e d st t = Inr st1"
    using process_flagged_chunk[OF assms(2,3)] by (simp add: st1_def)
  have p1: "pending_thoughts st1 = map JStr (ths @ [''''])"
    by (simp add: st1_def assms(7))
  have r: "role_of a = ''assistant''"
    using role_of_cases[of a] assms(6) by auto
  from process_turn_chunk_shaped[OF assms(4,5,1) p1, of e] obtain st2 where
    2: "process_chunk e d st1 a = Inr st2"
       "m_content (objects st2 ! length (objects st1)) =
          JStr (thought_section (join_strings blank_line (ths @ [''''])) @ text_of a)"
    using r by auto
  have o: "objects st1 = objects st" by (simp add: st1_def)
  have "\<exists>st2. process_chunk e d st t = Inr st1
           \<and> pending_thoughts st1 = pending_thoughts st @ [JStr '''']
           \<and> pending_thoughts st1 \<noteq> []
           \<and> objects st1 = objects st
           \<and> process_chunk e d st1 a = Inr st2
           \<and> m_content (objects st2 ! length (objects st)) =
               JStr (thought_section (join_strings blank_line (ths @ [''''])) @ text_of a)
           \<and> m_content (objects st2 ! length (objects st)) \<noteq> JStr (text_of a)
           \<and> (ths = [] \<longrightarrow> m_content (objects st2 ! length (objects st)) =
                              JStr (thought_section '''' @ text_of a))"
    using 1 2 o thought_section_not_plain
    by (intro exI[of _ st2]) (auto simp: st1_def)
  then show ?thesis by (rule exI)
qed

theorem empty_thought_still_prefixes_reasoning_block_witness:
  \<open>shaped_doc example_doc
   \<and> flagged empty_thought_chunk ''isThought''
   \<and> \<not> has_field empty_thought_chunk ''text'' \<and> \<not> has_field empty_thought_chunk ''parts''
   \<and> thought_content empty_thought_chunk = Inr (JStr '''')
   \<and> shaped_chunk hello_chunk \<and> \<not> flagged hello_chunk ''isThought'' \<and> role_of hello_chunk \<noteq> ''user''
   \<and> pending_thoughts initial_state = map JStr []
   \<and> (\<exists>st1 st2. process_chunk example_env example_doc initial_state empty_thought_chunk = Inr st1
         \<and> pending_thoughts st1 = [JStr '''']
         \<and> process_chunk example_env example_doc st1 hello_chunk = Inr st2
         \<and> m_content (objects st2 ! length (objects initial_state)) =
             JStr ''<details type="reasoning" done="true" duration="5">\<newline><summary>Thought for 5 seconds</summary>\<newline>\<newline></details>\<newline>\<newline>hello'')\<close>
proof -
  have d: \<open>shaped_doc example_doc\<close> by code_simp
  have t: "flagged empty_thought_chunk ''isThought''"
    "thought_content empty_thought_chunk = Inr (JStr '''')" by code_simp+
  have t': "\<not> has_field empty_thought_chunk ''text''" "\<not> has_field empty_thought_chunk ''parts''"
    by code_simp+
  have a: "shaped_chunk hello_chunk" "\<not> flagged hello_chunk ''isThought''"
    "role_of hello_chunk \<noteq> ''user''" by code_simp+
  have p: "pending_thoughts initial_state = map JStr []" by (simp add: initial_state_def)
  have tx: "text_of hello_chunk = ''hello''" by code_simp
  from empty_thought_still_prefixes_reasoning_block[OF d t a p, of example_env]
  obtain st1 st2 where
    \<open>process_chunk example_env example_doc initial_state empty_thought_chunk = Inr st1
     \<and> pending_thoughts st1 = [JStr '''']
     \<and> process_chunk example_env example_doc st1 hello_chunk = Inr st2
     \<and> m_content (objects st2 ! length (objects initial_state)) =
         JStr ''<details type="reasoning" done="true" duration="5">\<newline><summary>Thought for 5 seconds</summary>\<newline>\<newline></details>\<newline>\<newline>hello''\<close>
    unfolding tx p by (auto simp: thought_section_def)
  then have \<open>\<exists>st1 st2. process_chunk example_env example_doc initial_state empty_thought_chunk = Inr st1
         \<and> pending_thoughts st1 = [JStr '''']
         \<and> process_chunk example_env example_doc st1 hello_chunk = Inr st2
         \<and> m_content (objects st2 ! length (objects initial_state)) =
             JStr ''<details type="reasoning" done="true" duration="5">\<newline><summary>Thought for 5 seconds</summary>\<newline>\<newline></details>\<newline>\<newline>hello''\<close>
    by (intro exI[of _ st1] exI[of _ st2])
  with d t t' a p show ?thesis by (intro conjI)
qed

section \<open>Messages are created once\<close>

text \<open>
  Processing further chunks changes nothing of a message already in the store but its
  \<^verbatim>\<open>childrenIds\<close>: what the theorems on single chunks say about role, content and
  model fields of a new message holds for that message in the returned record.
\<close>

lemma process_chunk_keeps_fields:
  assumes "process_chunk e d st c = Inr st'" and "k < length (objects st)"
  shows "\<exists>kids. objects st' ! k = (objects st ! k) \<lparr> m_childrenIds := kids \<rparr>"
proof -
  from process_chunk_Inr[OF assms(1)] show ?thesis
  proof
    assume "turn_chunk e d st c = Inr st'"
    from turn_chunk_Inr[OF this] obtain msg where
      objs: "objects st' = link_parent (objects st @ [msg]) (messages st') (parent_id st) (m_id msg)"
      by blast
    have "k < length (objects st @ [msg])" using assms(2) by simp
    from link_parent_frame[OF this, of "messages st'" "parent_id st" "m_id msg"]
    show ?thesis using assms(2) by (simp add: objs nth_append)
  next
    assume "\<exists>t. st' = st \<lparr> pending_thoughts := pending_thoughts st @ [t] \<rparr>"
    then have "objects st' ! k = (objects st ! k) \<lparr> m_childrenIds := m_childrenIds (objects st ! k) \<rparr>"
      by auto
    then show ?thesis by (rule exI)
  qed
qed

lemma process_chunks_keeps_fields:
  "process_chunks e d st cs = Inr st' \<Longrightarrow> k < length (objects st) \<Longrightarrow>
   \<exists>kids. objects st' ! k = (objects st ! k) \<lparr> m_childrenIds := kids \<rparr>"
proof (induction cs arbitrary: st)
  case Nil
  then have "objects st' ! k = (objects st ! k) \<lparr> m_childrenIds := m_childrenIds (objects st ! k) \<rparr>"
    by simp
  then show ?case by (rule exI)
next
  case (Cons c cs)
  then obtain st1 where 1: "process_chunk e d st c = Inr st1"
    and 2: "process_chunks e d st1 cs = Inr st'"
    by (auto simp: bind_eq_Inr)
  from process_chunk_keeps_fields[OF 1 Cons.prems(2)] obtain kids1 where
    k1: "objects st1 ! k = (objects st ! k) \<lparr> m_childrenIds := kids1 \<rparr>"
    by blast
  have "k < length (objects st1)"
    using length_objects_process_chunk[OF 1] Cons.prems(2) by simp
  from Cons.IH[OF 2 this] obtain kids where
    "objects st' ! k = (objects st1 ! k) \<lparr> m_childrenIds := kids \<rparr>"
    by blast
  then have "objects st' ! k = (objects st ! k) \<lparr> m_childrenIds := kids \<rparr>"
    by (simp add: k1)
  then show ?case by (rule exI)
qed

end
